theory Spec2Isabelle
  imports Complex_Main "HOL-Library.AList"
begin

section \<open>Values shared by the GateIO wrapper\<close>

text \<open>
  The embedding follows \<^verbatim>\<open>exchanges/gateio/gateio_wrapper.go\<close>. A Go function returning
  \<^verbatim>\<open>(value, error)\<close> is a pair \<open>(value, error option)\<close>: Go hands back both, and the
  wrapper does return non-zero values next to a non-nil error. A nil slice and an empty
  slice are both \<open>[]\<close>.

  Amounts are \<^verbatim>\<open>float64\<close> in the source. They are taken as reals: the wrapper only
  copies, adds and subtracts them, and nothing below depends on rounding.
\<close>

type_synonym float64 = real

text \<open>
  Go's \<^verbatim>\<open>error\<close> values. \<open>ErrFunctionNotSupported\<close> and \<open>ErrNotYetImplemented\<close> are the
  two variables of package \<^verbatim>\<open>common\<close> the wrapper names; \<open>ErrorsNew\<close> is an error
  allocated by the wrapper itself (\<^verbatim>\<open>errors.New\<close>, \<^verbatim>\<open>fmt.Errorf\<close>); \<open>Panic\<close> is a run-time
  panic (a failed type assertion); \<open>External\<close> is any error value made by a collaborator
  (the REST executor, the websocket channel, \<^verbatim>\<open>strconv\<close>, the caches).
\<close>

datatype error =
    ErrFunctionNotSupported
  | ErrNotYetImplemented
  | ErrorsNew string
  | Panic string
  | External string

text \<open>\<^verbatim>\<open>time.Time\<close>: the zero value, or what \<^verbatim>\<open>time.Unix(sec, nsec)\<close> was called with.\<close>

datatype time = ZeroTime | Unix int int

text \<open>
  \<^verbatim>\<open>currency.Pair\<close>: package \<^verbatim>\<open>currency\<close> is outside this file and the wrapper never
  compares two pairs, so a pair is kept as the constructor call that made it.
\<close>

datatype pair = EmptyPair | NewPairFromString string | NewPairDelimiter string string

text \<open>
  Modelled from the spec: the enumeration constants of package \<^verbatim>\<open>order\<close> (side Buy, Sell,
  Ask, Bid; type Limit, Market). \<^verbatim>\<open>order.Side\<close> and \<^verbatim>\<open>order.Type\<close> are string types, the
  wrapper converts raw strings into them, and \<^verbatim>\<open>String()\<close> gives the string back.
\<close>

definition Buy :: string where "Buy = ''BUY''"
definition Sell :: string where "Sell = ''SELL''"
definition Ask :: string where "Ask = ''ASK''"
definition Bid :: string where "Bid = ''BID''"
definition Limit :: string where "Limit = ''LIMIT''"
definition Market :: string where "Market = ''MARKET''"

subsection \<open>Strings: case folding and decimal rendering\<close>

text \<open>
  \<^verbatim>\<open>strings.EqualFold\<close> and \<^verbatim>\<open>strings.ToUpper\<close>, on ASCII strings (exchange symbols and
  side names); Go folds Unicode, which differs only outside ASCII.
\<close>

definition toLower :: "char \<Rightarrow> char" where
  "toLower c =
     (case map_of (zip ''ABCDEFGHIJKLMNOPQRSTUVWXYZ'' ''abcdefghijklmnopqrstuvwxyz'') c of
        Some l \<Rightarrow> l
      | None \<Rightarrow> c)"

definition toUpper :: "char \<Rightarrow> char" where
  "toUpper c =
     (case map_of (zip ''abcdefghijklmnopqrstuvwxyz'' ''ABCDEFGHIJKLMNOPQRSTUVWXYZ'') c of
        Some u \<Rightarrow> u
      | None \<Rightarrow> c)"

definition EqualFold :: "string \<Rightarrow> string \<Rightarrow> bool" where
  "EqualFold s t = (map toLower s = map toLower t)"

definition ToUpper :: "string \<Rightarrow> string" where
  "ToUpper s = map toUpper s"

text \<open>\<^verbatim>\<open>strconv.FormatInt(i, 10)\<close>.\<close>

fun natDigits :: "nat \<Rightarrow> string" where
  "natDigits n =
     (if n < 10 then [''0123456789'' ! n]
      else natDigits (n div 10) @ [''0123456789'' ! (n mod 10)])"

definition FormatInt :: "int \<Rightarrow> string" where
  "FormatInt i = (if i < 0 then CHR ''-'' # natDigits (nat (- i)) else natDigits (nat i))"

section \<open>Raw payloads and canonical records\<close>

text \<open>
  \<^verbatim>\<open>order.Detail\<close>, with the fields this file writes; a field a constructor call leaves
  out has Go's zero value.
\<close>

record detail =
  Exchange :: string
  AccountID :: string
  ID :: string
  CurrencyPair :: pair
  OrderSide :: string
  OrderType :: string
  OrderDate :: time
  Price :: float64
  Amount :: float64
  ExecutedAmount :: float64
  RemainingAmount :: float64
  Fee :: float64
  Status :: string

definition zeroDetail :: detail where
  "zeroDetail =
     \<lparr>Exchange = [], AccountID = [], ID = [], CurrencyPair = EmptyPair, OrderSide = [],
      OrderType = [], OrderDate = ZeroTime, Price = 0, Amount = 0, ExecutedAmount = 0,
      RemainingAmount = 0, Fee = 0, Status = []\<rparr>"

text \<open>One element of \<^verbatim>\<open>OpenOrdersResponse.Orders\<close> (REST); fields carry the prefix \<open>oo_\<close>.\<close>

record openOrder =
  oo_OrderNumber :: string
  oo_CurrencyPair :: string
  oo_Type :: string
  oo_Status :: string
  oo_Rate :: float64
  oo_Amount :: float64
  oo_InitialAmount :: float64
  oo_FilledAmount :: float64
  oo_Timestamp :: int

text \<open>One element of \<^verbatim>\<open>WebSocketOrderQueryRecords\<close> (real-time); fields carry \<open>ws_\<close>.\<close>

record wsRecord =
  ws_ID :: int
  ws_User :: int
  ws_Market :: string
  ws_Type :: int
  ws_OrderType :: int
  ws_Ctime :: float64
  ws_Price :: float64
  ws_Amount :: float64
  ws_FilledAmount :: float64
  ws_Left :: float64
  ws_DealFee :: float64

text \<open>\<^verbatim>\<open>order.GetOrdersRequest\<close>; fields carry \<open>req_\<close>.\<close>

record getOrdersRequest =
  req_Currencies :: "pair list"
  req_OrderType :: string
  req_OrderSide :: string
  req_StartTicks :: time
  req_EndTicks :: time

section \<open>Unsupported operations\<close>

definition GetFundingHistory :: "'h list \<times> error option" where
  "GetFundingHistory = ([], Some ErrFunctionNotSupported)"

definition GetExchangeHistory :: "pair \<Rightarrow> 'a \<Rightarrow> 'h list \<times> error option" where
  "GetExchangeHistory p assetType = ([], Some ErrNotYetImplemented)"

definition WithdrawFiatFunds :: "'w \<Rightarrow> string \<times> error option" where
  "WithdrawFiatFunds withdrawRequest = ([], Some ErrFunctionNotSupported)"

definition WithdrawFiatFundsToInternationalBank :: "'w \<Rightarrow> string \<times> error option" where
  "WithdrawFiatFundsToInternationalBank withdrawRequest = ([], Some ErrFunctionNotSupported)"

section \<open>GetOrderInfo\<close>

text \<open>
  The body of the scan of \<^verbatim>\<open>GetOrderInfo\<close> for the order \<open>x\<close> whose number matched. The
  side stays the zero value when the raw type is neither \<open>Ask\<close> nor \<open>Bid\<close>.
\<close>

definition orderInfoDetail :: "string \<Rightarrow> string \<Rightarrow> openOrder \<Rightarrow> detail" where
  "orderInfoDetail name delimiter x =
     zeroDetail
       \<lparr>Exchange := name,
        ID := oo_OrderNumber x,
        RemainingAmount := oo_InitialAmount x - oo_FilledAmount x,
        ExecutedAmount := oo_FilledAmount x,
        Amount := oo_InitialAmount x,
        OrderDate := Unix (oo_Timestamp x) 0,
        Status := oo_Status x,
        Price := oo_Rate x,
        CurrencyPair := NewPairDelimiter (oo_CurrencyPair x) delimiter,
        OrderSide :=
          (if EqualFold (oo_Type x) Ask then Ask
           else if EqualFold (oo_Type x) Bid then Buy
           else [])\<rparr>"

fun orderInfoScan :: "string \<Rightarrow> string \<Rightarrow> string \<Rightarrow> openOrder list \<Rightarrow> detail \<times> error option" where
  "orderInfoScan name delimiter orderID [] =
     (zeroDetail, Some (ErrorsNew (''no order found with id '' @ orderID)))"
| "orderInfoScan name delimiter orderID (x # xs) =
     (if oo_OrderNumber x \<noteq> orderID then orderInfoScan name delimiter orderID xs
      else (orderInfoDetail name delimiter x, None))"

text \<open>
  \<open>getOpenOrders\<close> is \<^verbatim>\<open>g.GetOpenOrders\<close> (the REST executor), \<open>name\<close> is \<^verbatim>\<open>g.Name\<close> and
  \<open>delimiter\<close> is \<^verbatim>\<open>g.GetPairFormat(asset.Spot, false).Delimiter\<close>.
\<close>

definition GetOrderInfo ::
  "string \<Rightarrow> string \<Rightarrow> (string \<Rightarrow> error + openOrder list) \<Rightarrow> string \<Rightarrow> detail \<times> error option" where
  "GetOrderInfo name delimiter getOpenOrders orderID =
     (case getOpenOrders [] of
        Inl err \<Rightarrow> (zeroDetail, Some (ErrorsNew ''failed to get open orders''))
      | Inr orders \<Rightarrow> orderInfoScan name delimiter orderID orders)"

section \<open>GetActiveOrders\<close>

subsection \<open>The real-time path\<close>

text \<open>The \<^verbatim>\<open>order.Detail\<close> appended for one websocket record, its timestamp already split.\<close>

definition wsDetail :: "string \<Rightarrow> wsRecord \<Rightarrow> int \<Rightarrow> int \<Rightarrow> detail" where
  "wsDetail name r firstNum decNum =
     (let orderSide = (if ws_Type r = 1 then Sell else Buy);
          orderType = (if ws_OrderType r = 1 then Limit else Market);
          orderDate = Unix firstNum decNum
      in \<lparr>Exchange = name,
          AccountID = FormatInt (ws_User r),
          ID = FormatInt (ws_ID r),
          CurrencyPair = NewPairFromString (ws_Market r),
          OrderSide = orderSide,
          OrderType = orderType,
          OrderDate = orderDate,
          Price = ws_Price r,
          Amount = ws_Amount r,
          ExecutedAmount = ws_FilledAmount r,
          RemainingAmount = ws_Left r,
          Fee = ws_DealFee r,
          Status = []\<rparr>)"

text \<open>
  The loop over one page's records. \<open>splitFloatDecimals\<close> is \<^verbatim>\<open>convert.SplitFloatDecimals\<close>;
  when it fails the loop returns the accumulator as it stands, with the error.
\<close>

fun wsRecords ::
  "string \<Rightarrow> (float64 \<Rightarrow> error + int \<times> int) \<Rightarrow> wsRecord list \<Rightarrow> detail list
     \<Rightarrow> detail list \<times> error option" where
  "wsRecords name splitFloatDecimals [] orders = (orders, None)"
| "wsRecords name splitFloatDecimals (r # rs) orders =
     (case splitFloatDecimals (ws_Ctime r) of
        Inl err \<Rightarrow> (orders, Some err)
      | Inr (firstNum, decNum) \<Rightarrow>
          wsRecords name splitFloatDecimals rs (orders @ [wsDetail name r firstNum decNum]))"

text \<open>
  The pagination loop \<^verbatim>\<open>for i := 0; ; i += 100\<close>. \<open>wsGetOrderInfo\<close> is the websocket query
  (order type, offset, limit); within one call every fetch has an offset of its own, so a
  function of the offset can stand for any sequence of answers. The loop has no bound:
  it is a partial function, and \<open>None\<close> is the run that never returns. Besides the two
  values Go returns, the result lists the fetches made, (offset, limit) in order. The
  offset is an unbounded integer here (Go's \<^verbatim>\<open>int\<close> would wrap after \<open>2^63 div 100\<close> pages).
\<close>

partial_function (option) wsLoop ::
  "string \<Rightarrow> (string \<Rightarrow> int \<Rightarrow> int \<Rightarrow> error + wsRecord list) \<Rightarrow> (float64 \<Rightarrow> error + int \<times> int)
     \<Rightarrow> string \<Rightarrow> int \<Rightarrow> detail list \<Rightarrow> (int \<times> int) list
     \<Rightarrow> ((detail list \<times> error option) \<times> (int \<times> int) list) option" where
  "wsLoop name wsGetOrderInfo splitFloatDecimals orderType i orders fetches =
     (case wsGetOrderInfo orderType i 100 of
        Inl err \<Rightarrow> Some ((orders, Some err), fetches @ [(i, 100)])
      | Inr records \<Rightarrow>
          (case wsRecords name splitFloatDecimals records orders of
             (orders', Some err) \<Rightarrow> Some ((orders', Some err), fetches @ [(i, 100)])
           | (orders', None) \<Rightarrow>
               if length records < 100 then Some ((orders', None), fetches @ [(i, 100)])
               else wsLoop name wsGetOrderInfo splitFloatDecimals orderType (i + 100) orders'
                      (fetches @ [(i, 100)])))"

subsection \<open>The REST path\<close>

definition restDetail :: "string \<Rightarrow> string \<Rightarrow> openOrder \<Rightarrow> detail" where
  "restDetail name delimiter x =
     (let symbol = NewPairDelimiter (oo_CurrencyPair x) delimiter;
          side = ToUpper (oo_Type x);
          orderDate = Unix (oo_Timestamp x) 0
      in zeroDetail
          \<lparr>ID := oo_OrderNumber x,
           Amount := oo_Amount x,
           Price := oo_Rate x,
           RemainingAmount := oo_FilledAmount x,
           OrderDate := orderDate,
           OrderSide := side,
           Exchange := name,
           CurrencyPair := symbol,
           Status := oo_Status x\<rparr>)"

fun restOrders :: "string \<Rightarrow> string \<Rightarrow> openOrder list \<Rightarrow> detail list \<Rightarrow> detail list" where
  "restOrders name delimiter [] orders = orders"
| "restOrders name delimiter (x # xs) orders =
     (if oo_Status x \<noteq> ''open'' then restOrders name delimiter xs orders
      else restOrders name delimiter xs (orders @ [restDetail name delimiter x]))"

subsection \<open>The operation\<close>

text \<open>
  \<open>canUseWs\<close> is \<^verbatim>\<open>g.Websocket.CanUseAuthenticatedWebsocketForWrapper()\<close>, \<open>pairString\<close> is
  \<^verbatim>\<open>currency.Pair.String\<close>, and the two filters are \<^verbatim>\<open>order.FilterOrdersByTickRange\<close> and
  \<^verbatim>\<open>order.FilterOrdersBySide\<close>, which rewrite the slice in place: here they return it.
\<close>

definition GetActiveOrders ::
  "string \<Rightarrow> string \<Rightarrow> bool \<Rightarrow> (string \<Rightarrow> int \<Rightarrow> int \<Rightarrow> error + wsRecord list)
     \<Rightarrow> (float64 \<Rightarrow> error + int \<times> int) \<Rightarrow> (string \<Rightarrow> error + openOrder list) \<Rightarrow> (pair \<Rightarrow> string)
     \<Rightarrow> (detail list \<Rightarrow> time \<Rightarrow> time \<Rightarrow> detail list) \<Rightarrow> (detail list \<Rightarrow> string \<Rightarrow> detail list)
     \<Rightarrow> getOrdersRequest \<Rightarrow> (detail list \<times> error option) option" where
  "GetActiveOrders name delimiter canUseWs wsGetOrderInfo splitFloatDecimals getOpenOrders
       pairString filterOrdersByTickRange filterOrdersBySide req =
     (let currPair =
            (if length (req_Currencies req) = 1 then pairString (hd (req_Currencies req)) else [])
      in if canUseWs then
           (case wsLoop name wsGetOrderInfo splitFloatDecimals (req_OrderType req) 0 [] [] of
              None \<Rightarrow> None
            | Some ((orders, Some err), fetches) \<Rightarrow> Some (orders, Some err)
            | Some ((orders, None), fetches) \<Rightarrow>
                Some (filterOrdersBySide
                        (filterOrdersByTickRange orders (req_StartTicks req) (req_EndTicks req))
                        (req_OrderSide req), None))
         else
           (case getOpenOrders currPair of
              Inl err \<Rightarrow> Some ([], Some err)
            | Inr resp \<Rightarrow>
                Some (filterOrdersBySide
                        (filterOrdersByTickRange (restOrders name delimiter resp [])
                           (req_StartTicks req) (req_EndTicks req))
                        (req_OrderSide req), None)))"

section \<open>CancelAllOrders\<close>

text \<open>
  \<^verbatim>\<open>uniqueSymbols\<close> is a \<^verbatim>\<open>map[string]int\<close>: an association list with one entry per key,
  in some iteration order (Go leaves the order open). \<^verbatim>\<open>uniqueSymbols[k]++\<close> starts a
  missing key at 1.
\<close>

fun countSymbols :: "openOrder list \<Rightarrow> (string \<times> int) list \<Rightarrow> (string \<times> int) list" where
  "countSymbols [] uniqueSymbols = uniqueSymbols"
| "countSymbols (x # xs) uniqueSymbols =
     countSymbols xs (AList.map_default (oo_CurrencyPair x) 1 (\<lambda>n. n + 1) uniqueSymbols)"

text \<open>
  The cancellation loop. \<open>cancelAllExistingOrders\<close> is the REST call (order type, symbol),
  \<open>None\<close> for a nil error; \<open>errorText\<close> is \<^verbatim>\<open>err.Error()\<close>. \<^verbatim>\<open>Status\<close> is a
  \<^verbatim>\<open>map[string]string\<close>.
\<close>

fun cancelSymbols ::
  "(int \<Rightarrow> string \<Rightarrow> error option) \<Rightarrow> (error \<Rightarrow> string) \<Rightarrow> (string \<times> int) list
     \<Rightarrow> (string \<rightharpoonup> string) \<Rightarrow> (string \<rightharpoonup> string)" where
  "cancelSymbols cancelAllExistingOrders errorText [] status = status"
| "cancelSymbols cancelAllExistingOrders errorText ((unique, n) # rest) status =
     (case cancelAllExistingOrders (- 1) unique of
        Some err \<Rightarrow>
          cancelSymbols cancelAllExistingOrders errorText rest (status(unique \<mapsto> errorText err))
      | None \<Rightarrow> cancelSymbols cancelAllExistingOrders errorText rest status)"

definition CancelAllOrders ::
  "(string \<Rightarrow> error + openOrder list) \<Rightarrow> (int \<Rightarrow> string \<Rightarrow> error option) \<Rightarrow> (error \<Rightarrow> string)
     \<Rightarrow> 'c \<Rightarrow> (string \<rightharpoonup> string) \<times> error option" where
  "CancelAllOrders getOpenOrders cancelAllExistingOrders errorText cancel =
     (case getOpenOrders [] of
        Inl err \<Rightarrow> (Map.empty, Some err)
      | Inr orders \<Rightarrow>
          (cancelSymbols cancelAllExistingOrders errorText (countSymbols orders []) Map.empty,
           None))"

section \<open>UpdateAccountInfo\<close>

text \<open>
  The balance blob of the REST path has two \<^verbatim>\<open>interface{}\<close> fields. A decoded value is a
  string, an object (\<^verbatim>\<open>map[string]interface{}\<close>, its entries in iteration order) or
  anything else (number, boolean, array, nil).
\<close>

datatype json = JString string | JObject "(string \<times> json) list" | JOther

record balancesResponse =
  bal_Locked :: json
  bal_Available :: json

text \<open>One entry of the websocket balance answer.\<close>

record wsBalance =
  wb_Available :: float64
  wb_Freeze :: float64

text \<open>
  \<^verbatim>\<open>account.Balance\<close>, \<^verbatim>\<open>account.SubAccount\<close> and \<^verbatim>\<open>account.Holdings\<close>. The currency code
  is what \<^verbatim>\<open>currency.NewCode\<close> returns, a parameter \<open>newCode\<close> of the functions below.
\<close>

record 'c balance =
  CurrencyName :: 'c
  TotalValue :: float64
  Hold :: float64

record 'c subAccount =
  sa_ID :: string
  Currencies :: "'c balance list"

record 'c holdings =
  h_Exchange :: string
  h_Accounts :: "'c subAccount list"

definition zeroHoldings :: "'c holdings" where
  "zeroHoldings = \<lparr>h_Exchange = [], h_Accounts = []\<rparr>"

text \<open>
  The first loop of the REST path, over \<^verbatim>\<open>balance.Locked\<close>. \<open>parseFloat\<close> is
  \<^verbatim>\<open>strconv.ParseFloat(s, 64)\<close>; the assertion \<^verbatim>\<open>l[x].(string)\<close> panics on a value that is
  not a string. The appended record names \<^verbatim>\<open>CurrencyName\<close> and \<^verbatim>\<open>Hold\<close> only.
\<close>

fun lockedLoop ::
  "(string \<Rightarrow> error + float64) \<Rightarrow> (string \<Rightarrow> 'c) \<Rightarrow> (string \<times> json) list \<Rightarrow> 'c balance list
     \<Rightarrow> error + 'c balance list" where
  "lockedLoop parseFloat newCode [] balances = Inr balances"
| "lockedLoop parseFloat newCode ((x, v) # l) balances =
     (case v of
        JString s \<Rightarrow>
          (case parseFloat s of
             Inl err \<Rightarrow> Inl err
           | Inr lockedF \<Rightarrow>
               lockedLoop parseFloat newCode l
                 (balances @ [\<lparr>CurrencyName = newCode x, TotalValue = 0, Hold = lockedF\<rparr>]))
      | _ \<Rightarrow> Inl (Panic ''interface conversion: interface {} is not string''))"

text \<open>
  The inner scan \<^verbatim>\<open>for i := range balances\<close>: the first record of that currency gets
  \<^verbatim>\<open>TotalValue = Hold + availAmount\<close>; the flag says whether one was found.
\<close>

fun updateTotal :: "'c \<Rightarrow> float64 \<Rightarrow> 'c balance list \<Rightarrow> 'c balance list \<times> bool" where
  "updateTotal code availAmount [] = ([], False)"
| "updateTotal code availAmount (b # bs) =
     (if CurrencyName b = code then (b\<lparr>TotalValue := Hold b + availAmount\<rparr> # bs, True)
      else (case updateTotal code availAmount bs of (bs', updated) \<Rightarrow> (b # bs', updated)))"

fun availableLoop ::
  "(string \<Rightarrow> error + float64) \<Rightarrow> (string \<Rightarrow> 'c) \<Rightarrow> (string \<times> json) list \<Rightarrow> 'c balance list
     \<Rightarrow> error + 'c balance list" where
  "availableLoop parseFloat newCode [] balances = Inr balances"
| "availableLoop parseFloat newCode ((x, v) # l) balances =
     (case v of
        JString s \<Rightarrow>
          (case parseFloat s of
             Inl err \<Rightarrow> Inl err
           | Inr availAmount \<Rightarrow>
               (case updateTotal (newCode x) availAmount balances of
                  (balances', updated) \<Rightarrow>
                    availableLoop parseFloat newCode l
                      (if \<not> updated
                       then balances' @ [\<lparr>CurrencyName = newCode x, TotalValue = availAmount, Hold = 0\<rparr>]
                       else balances')))
      | _ \<Rightarrow> Inl (Panic ''interface conversion: interface {} is not string''))"

text \<open>The two type switches: a field that is not an object is skipped.\<close>

definition restBalances ::
  "(string \<Rightarrow> error + float64) \<Rightarrow> (string \<Rightarrow> 'c) \<Rightarrow> balancesResponse \<Rightarrow> error + 'c balance list" where
  "restBalances parseFloat newCode balance =
     (case (case bal_Locked balance of
              JObject l \<Rightarrow> lockedLoop parseFloat newCode l []
            | _ \<Rightarrow> Inr []) of
        Inl err \<Rightarrow> Inl err
      | Inr balances \<Rightarrow>
          (case bal_Available balance of
             JObject v \<Rightarrow> availableLoop parseFloat newCode v balances
           | _ \<Rightarrow> Inr balances))"

text \<open>The loop of the websocket path over \<^verbatim>\<open>resp.Result\<close>.\<close>

fun wsBalances :: "(string \<Rightarrow> 'c) \<Rightarrow> (string \<times> wsBalance) list \<Rightarrow> 'c balance list \<Rightarrow> 'c balance list" where
  "wsBalances newCode [] currData = currData"
| "wsBalances newCode ((k, v) # rest) currData =
     wsBalances newCode rest
       (currData @ [\<lparr>CurrencyName = newCode k, TotalValue = wb_Available v + wb_Freeze v,
                     Hold = wb_Freeze v\<rparr>])"

text \<open>
  \<open>wsGetBalance\<close> and \<open>getBalances\<close> are the two transports, \<open>process\<close> is
  \<^verbatim>\<open>account.Process\<close>. A panic ends the call; it is returned as an error here.
\<close>

definition UpdateAccountInfo ::
  "string \<Rightarrow> bool \<Rightarrow> (string list \<Rightarrow> error + (string \<times> wsBalance) list) \<Rightarrow> (error + balancesResponse)
     \<Rightarrow> (string \<Rightarrow> error + float64) \<Rightarrow> (string \<Rightarrow> 'c) \<Rightarrow> ('c holdings \<Rightarrow> error option)
     \<Rightarrow> 'c holdings \<times> error option" where
  "UpdateAccountInfo name canUseWs wsGetBalance getBalances parseFloat newCode process =
     (case (if canUseWs then
              (case wsGetBalance [] of
                 Inl err \<Rightarrow> Inl err
               | Inr result \<Rightarrow> Inr (wsBalances newCode result []))
            else
              (case getBalances of
                 Inl err \<Rightarrow> Inl err
               | Inr balance \<Rightarrow> restBalances parseFloat newCode balance)) of
        Inl err \<Rightarrow> (zeroHoldings, Some err)
      | Inr currencies \<Rightarrow>
          (let info = \<lparr>h_Exchange = name, h_Accounts = [\<lparr>sa_ID = [], Currencies = currencies\<rparr>]\<rparr>
           in case process info of
                Some err \<Rightarrow> (zeroHoldings, Some err)
              | None \<Rightarrow> (info, None)))"

section \<open>UpdateTicker\<close>

text \<open>One value of the raw ticker map, and \<^verbatim>\<open>ticker.Price\<close> with the fields the wrapper sets.\<close>

record tickerResponse =
  tr_Last :: float64
  tr_High :: float64
  tr_Low :: float64
  tr_BaseVolume :: float64
  tr_QuoteVolume :: float64
  tr_Open :: float64
  tr_Close :: float64

record tickerPrice =
  tp_Last :: float64
  tp_High :: float64
  tp_Low :: float64
  tp_Volume :: float64
  tp_QuoteVolume :: float64
  tp_Open :: float64
  tp_Close :: float64
  tp_Pair :: pair

definition zeroPrice :: tickerPrice where
  "zeroPrice =
     \<lparr>tp_Last = 0, tp_High = 0, tp_Low = 0, tp_Volume = 0, tp_QuoteVolume = 0, tp_Open = 0,
      tp_Close = 0, tp_Pair = EmptyPair\<rparr>"

definition tickerOf :: "pair \<Rightarrow> tickerResponse \<Rightarrow> tickerPrice" where
  "tickerOf p r =
     \<lparr>tp_Last = tr_Last r, tp_High = tr_High r, tp_Low = tr_Low r, tp_Volume = tr_BaseVolume r,
      tp_QuoteVolume = tr_QuoteVolume r, tp_Open = tr_Open r, tp_Close = tr_Close r,
      tp_Pair = p\<rparr>"

text \<open>
  The inner loop \<^verbatim>\<open>for k := range result\<close> for one enabled pair. The ticker cache is a
  collaborator with a state of its own, \<open>'s\<close>: \<open>processTicker\<close> is \<^verbatim>\<open>ticker.ProcessTicker\<close>,
  whose error is logged and dropped.
\<close>

fun tickerKeys ::
  "(string \<Rightarrow> tickerPrice \<Rightarrow> 'a \<Rightarrow> 's \<Rightarrow> error option \<times> 's) \<Rightarrow> string \<Rightarrow> 'a \<Rightarrow> (pair \<Rightarrow> string)
     \<Rightarrow> pair \<Rightarrow> (string \<times> tickerResponse) list \<Rightarrow> 's \<Rightarrow> 's" where
  "tickerKeys processTicker name assetType pairString p [] cache = cache"
| "tickerKeys processTicker name assetType pairString p ((k, r) # result) cache =
     (if \<not> EqualFold k (pairString p)
      then tickerKeys processTicker name assetType pairString p result cache
      else tickerKeys processTicker name assetType pairString p result
             (snd (processTicker name (tickerOf p r) assetType cache)))"

text \<open>The outer loop \<^verbatim>\<open>for i := range pairs\<close>.\<close>

fun tickerPairs ::
  "(string \<Rightarrow> tickerPrice \<Rightarrow> 'a \<Rightarrow> 's \<Rightarrow> error option \<times> 's) \<Rightarrow> string \<Rightarrow> 'a \<Rightarrow> (pair \<Rightarrow> string)
     \<Rightarrow> pair list \<Rightarrow> (string \<times> tickerResponse) list \<Rightarrow> 's \<Rightarrow> 's" where
  "tickerPairs processTicker name assetType pairString [] result cache = cache"
| "tickerPairs processTicker name assetType pairString (p # pairs) result cache =
     tickerPairs processTicker name assetType pairString pairs result
       (tickerKeys processTicker name assetType pairString p result cache)"

text \<open>
  \<open>getTickers\<close> is the REST fetch (the raw map in iteration order), \<open>enabledPairs\<close> is
  \<^verbatim>\<open>g.GetEnabledPairs(assetType)\<close> and \<open>getTicker\<close> is \<^verbatim>\<open>ticker.GetTicker\<close>. The result is
  what Go returns, and the cache after the call.
\<close>

definition UpdateTicker ::
  "string \<Rightarrow> (error + (string \<times> tickerResponse) list) \<Rightarrow> pair list \<Rightarrow> (pair \<Rightarrow> string)
     \<Rightarrow> (string \<Rightarrow> tickerPrice \<Rightarrow> 'a \<Rightarrow> 's \<Rightarrow> error option \<times> 's)
     \<Rightarrow> (string \<Rightarrow> pair \<Rightarrow> 'a \<Rightarrow> 's \<Rightarrow> tickerPrice \<times> error option)
     \<Rightarrow> pair \<Rightarrow> 'a \<Rightarrow> 's \<Rightarrow> (tickerPrice \<times> error option) \<times> 's" where
  "UpdateTicker name getTickers enabledPairs pairString processTicker getTicker p assetType cache =
     (case getTickers of
        Inl err \<Rightarrow> ((zeroPrice, Some err), cache)
      | Inr result \<Rightarrow>
          (let cache' = tickerPairs processTicker name assetType pairString enabledPairs result cache
           in (getTicker name p assetType cache', cache')))"

section \<open>The cached reads\<close>

text \<open>
  \<^verbatim>\<open>FetchTicker\<close> and \<^verbatim>\<open>FetchAccountInfo\<close>: the cached value when the cache has one, a
  refresh otherwise. \<open>getHoldings\<close> is \<^verbatim>\<open>account.GetHoldings\<close>.
\<close>

definition FetchTicker ::
  "string \<Rightarrow> (error + (string \<times> tickerResponse) list) \<Rightarrow> pair list \<Rightarrow> (pair \<Rightarrow> string)
     \<Rightarrow> (string \<Rightarrow> tickerPrice \<Rightarrow> 'a \<Rightarrow> 's \<Rightarrow> error option \<times> 's)
     \<Rightarrow> (string \<Rightarrow> pair \<Rightarrow> 'a \<Rightarrow> 's \<Rightarrow> tickerPrice \<times> error option)
     \<Rightarrow> pair \<Rightarrow> 'a \<Rightarrow> 's \<Rightarrow> (tickerPrice \<times> error option) \<times> 's" where
  "FetchTicker name getTickers enabledPairs pairString processTicker getTicker p assetType cache =
     (case getTicker name p assetType cache of
        (tickerNew, Some err) \<Rightarrow>
          UpdateTicker name getTickers enabledPairs pairString processTicker getTicker p assetType
            cache
      | (tickerNew, None) \<Rightarrow> ((tickerNew, None), cache))"

definition FetchAccountInfo ::
  "string \<Rightarrow> (string \<Rightarrow> 'c holdings \<times> error option) \<Rightarrow> bool
     \<Rightarrow> (string list \<Rightarrow> error + (string \<times> wsBalance) list) \<Rightarrow> (error + balancesResponse)
     \<Rightarrow> (string \<Rightarrow> error + float64) \<Rightarrow> (string \<Rightarrow> 'c) \<Rightarrow> ('c holdings \<Rightarrow> error option)
     \<Rightarrow> 'c holdings \<times> error option" where
  "FetchAccountInfo name getHoldings canUseWs wsGetBalance getBalances parseFloat newCode process =
     (case getHoldings name of
        (acc, Some err) \<Rightarrow>
          UpdateAccountInfo name canUseWs wsGetBalance getBalances parseFloat newCode process
      | (acc, None) \<Rightarrow> (acc, None))"

section \<open>UpdateOrderbook and FetchOrderbook\<close>

text \<open>
  One raw level (\<open>ri_\<close>), one level of \<^verbatim>\<open>orderbook.Base\<close> and the base itself (\<open>ob_\<close>);
  \<^verbatim>\<open>asset.Item\<close> is a string type.
\<close>

record rawItem =
  ri_Price :: float64
  ri_Amount :: float64

record rawOrderbook =
  ri_Bids :: "rawItem list"
  ri_Asks :: "rawItem list"

record obItem =
  ob_Amount :: float64
  ob_Price :: float64

record orderbookBase =
  ob_Bids :: "obItem list"
  ob_Asks :: "obItem list"
  ob_Pair :: pair
  ob_ExchangeName :: string
  ob_AssetType :: string

definition zeroBase :: orderbookBase where
  "zeroBase =
     \<lparr>ob_Bids = [], ob_Asks = [], ob_Pair = EmptyPair, ob_ExchangeName = [], ob_AssetType = []\<rparr>"

text \<open>The two copy loops append one level per raw level.\<close>

fun copyLevels :: "rawItem list \<Rightarrow> obItem list \<Rightarrow> obItem list" where
  "copyLevels [] levels = levels"
| "copyLevels (x # xs) levels =
     copyLevels xs (levels @ [\<lparr>ob_Amount = ri_Amount x, ob_Price = ri_Price x\<rparr>])"

text \<open>
  \<open>formatExchangeCurrency\<close> is \<^verbatim>\<open>g.FormatExchangeCurrency\<close>, \<open>getOrderbook\<close> the REST fetch,
  \<open>processOrderbook\<close> is \<^verbatim>\<open>orderBook.Process()\<close> and \<open>getCached\<close> is \<^verbatim>\<open>orderbook.Get\<close>; the
  order-book cache has a state of its own.
\<close>

definition UpdateOrderbook ::
  "string \<Rightarrow> (pair \<Rightarrow> string \<Rightarrow> pair) \<Rightarrow> (pair \<Rightarrow> string) \<Rightarrow> (string \<Rightarrow> error + rawOrderbook)
     \<Rightarrow> (orderbookBase \<Rightarrow> 's \<Rightarrow> error option \<times> 's)
     \<Rightarrow> (string \<Rightarrow> pair \<Rightarrow> string \<Rightarrow> 's \<Rightarrow> orderbookBase \<times> error option)
     \<Rightarrow> pair \<Rightarrow> string \<Rightarrow> 's \<Rightarrow> (orderbookBase \<times> error option) \<times> 's" where
  "UpdateOrderbook name formatExchangeCurrency pairString getOrderbook processOrderbook getCached
       p assetType cache =
     (let curr = pairString (formatExchangeCurrency p assetType)
      in case getOrderbook curr of
           Inl err \<Rightarrow> ((zeroBase, Some err), cache)
         | Inr orderbookNew \<Rightarrow>
             (let orderBook =
                    \<lparr>ob_Bids = copyLevels (ri_Bids orderbookNew) [],
                     ob_Asks = copyLevels (ri_Asks orderbookNew) [],
                     ob_Pair = p, ob_ExchangeName = name, ob_AssetType = assetType\<rparr>
              in case processOrderbook orderBook cache of
                   (Some err, cache') \<Rightarrow> ((orderBook, Some err), cache')
                 | (None, cache') \<Rightarrow> (getCached name p assetType cache', cache')))"

definition FetchOrderbook ::
  "string \<Rightarrow> (pair \<Rightarrow> string \<Rightarrow> pair) \<Rightarrow> (pair \<Rightarrow> string) \<Rightarrow> (string \<Rightarrow> error + rawOrderbook)
     \<Rightarrow> (orderbookBase \<Rightarrow> 's \<Rightarrow> error option \<times> 's)
     \<Rightarrow> (string \<Rightarrow> pair \<Rightarrow> string \<Rightarrow> 's \<Rightarrow> orderbookBase \<times> error option)
     \<Rightarrow> pair \<Rightarrow> string \<Rightarrow> 's \<Rightarrow> (orderbookBase \<times> error option) \<times> 's" where
  "FetchOrderbook name formatExchangeCurrency pairString getOrderbook processOrderbook getCached
       p assetType cache =
     (case getCached name p assetType cache of
        (ob, Some err) \<Rightarrow>
          UpdateOrderbook name formatExchangeCurrency pairString getOrderbook processOrderbook
            getCached p assetType cache
      | (ob, None) \<Rightarrow> ((ob, None), cache))"

section \<open>SubmitOrder and CancelOrder\<close>

text \<open>
  \<^verbatim>\<open>order.Submit\<close> (\<open>sub_\<close>), \<^verbatim>\<open>SpotNewOrderRequestParams\<close> (\<open>snp_\<close>), the fields read of
  \<^verbatim>\<open>SpotNewOrderResponse\<close> (\<open>snr_\<close>) and \<^verbatim>\<open>order.SubmitResponse\<close>.
\<close>

record submit =
  sub_Pair :: pair
  sub_OrderSide :: string
  sub_Price :: float64
  sub_Amount :: float64

record spotNewOrderRequestParams =
  snp_Amount :: float64
  snp_Price :: float64
  snp_Symbol :: string
  snp_Type :: string

record spotNewOrderResponse =
  snr_OrderNumber :: int
  snr_LeftAmount :: float64

record submitResponse =
  IsOrderPlaced :: bool
  FullyMatched :: bool
  OrderID :: string

definition zeroSubmitResponse :: submitResponse where
  "zeroSubmitResponse = \<lparr>IsOrderPlaced = False, FullyMatched = False, OrderID = []\<rparr>"

text \<open>
  \<open>validate\<close> is \<^verbatim>\<open>s.Validate()\<close>, \<open>lower\<close> is \<^verbatim>\<open>order.Side.Lower\<close> and \<open>spotNewOrder\<close> the
  REST call.
\<close>

definition SubmitOrder ::
  "(submit \<Rightarrow> error option) \<Rightarrow> (string \<Rightarrow> string) \<Rightarrow> (pair \<Rightarrow> string)
     \<Rightarrow> (spotNewOrderRequestParams \<Rightarrow> error + spotNewOrderResponse)
     \<Rightarrow> submit \<Rightarrow> submitResponse \<times> error option" where
  "SubmitOrder validate lower pairString spotNewOrder s =
     (case validate s of
        Some err \<Rightarrow> (zeroSubmitResponse, Some err)
      | None \<Rightarrow>
          (let orderTypeFormat = (if sub_OrderSide s = Buy then lower Buy else lower Sell);
               params = \<lparr>snp_Amount = sub_Amount s, snp_Price = sub_Price s,
                         snp_Symbol = pairString (sub_Pair s), snp_Type = orderTypeFormat\<rparr>
           in case spotNewOrder params of
                Inl err \<Rightarrow> (zeroSubmitResponse, Some err)
              | Inr response \<Rightarrow>
                  (\<lparr>IsOrderPlaced = True,
                    FullyMatched = (snr_LeftAmount response = 0),
                    OrderID = (if snr_OrderNumber response > 0
                               then FormatInt (snr_OrderNumber response) else [])\<rparr>, None)))"

text \<open>\<^verbatim>\<open>order.Cancel\<close> (\<open>cn_\<close>); \<open>parseInt\<close> is \<^verbatim>\<open>strconv.ParseInt(s, 10, 64)\<close>.\<close>

record cancel =
  cn_OrderID :: string
  cn_CurrencyPair :: pair
  cn_AssetType :: string

definition CancelOrder ::
  "(string \<Rightarrow> error + int) \<Rightarrow> (pair \<Rightarrow> string \<Rightarrow> pair) \<Rightarrow> (pair \<Rightarrow> string)
     \<Rightarrow> (int \<Rightarrow> string \<Rightarrow> error option) \<Rightarrow> cancel \<Rightarrow> error option" where
  "CancelOrder parseInt formatExchangeCurrency pairString cancelExistingOrder order =
     (case parseInt (cn_OrderID order) of
        Inl err \<Rightarrow> Some err
      | Inr orderIDInt \<Rightarrow>
          cancelExistingOrder orderIDInt
            (pairString (formatExchangeCurrency (cn_CurrencyPair order) (cn_AssetType order))))"

section \<open>GetOrderHistory\<close>

text \<open>One element of \<^verbatim>\<open>TradHistoryResponse.Trades\<close>; fields carry \<open>th_\<close>.\<close>

record tradesResponse =
  th_OrderID :: int
  th_Pair :: string
  th_Type :: string
  th_Rate :: float64
  th_Amount :: float64
  th_TimeUnix :: int

text \<open>The fetch loop over the requested currencies stops at the first error.\<close>

fun tradeHistories ::
  "(string \<Rightarrow> error + tradesResponse list) \<Rightarrow> (pair \<Rightarrow> string) \<Rightarrow> pair list \<Rightarrow> tradesResponse list
     \<Rightarrow> error + tradesResponse list" where
  "tradeHistories getTradeHistory pairString [] trades = Inr trades"
| "tradeHistories getTradeHistory pairString (c # cs) trades =
     (case getTradeHistory (pairString c) of
        Inl err \<Rightarrow> Inl err
      | Inr resp \<Rightarrow> tradeHistories getTradeHistory pairString cs (trades @ resp))"

definition tradeDetail :: "string \<Rightarrow> string \<Rightarrow> tradesResponse \<Rightarrow> detail" where
  "tradeDetail name delimiter trade =
     (let symbol = NewPairDelimiter (th_Pair trade) delimiter;
          side = ToUpper (th_Type trade);
          orderDate = Unix (th_TimeUnix trade) 0
      in zeroDetail
          \<lparr>ID := FormatInt (th_OrderID trade),
           Amount := th_Amount trade,
           Price := th_Rate trade,
           OrderDate := orderDate,
           OrderSide := side,
           Exchange := name,
           CurrencyPair := symbol\<rparr>)"

fun tradeOrders :: "string \<Rightarrow> string \<Rightarrow> tradesResponse list \<Rightarrow> detail list \<Rightarrow> detail list" where
  "tradeOrders name delimiter [] orders = orders"
| "tradeOrders name delimiter (trade # trades) orders =
     tradeOrders name delimiter trades (orders @ [tradeDetail name delimiter trade])"

definition GetOrderHistory ::
  "string \<Rightarrow> string \<Rightarrow> (string \<Rightarrow> error + tradesResponse list) \<Rightarrow> (pair \<Rightarrow> string)
     \<Rightarrow> (detail list \<Rightarrow> time \<Rightarrow> time \<Rightarrow> detail list) \<Rightarrow> (detail list \<Rightarrow> string \<Rightarrow> detail list)
     \<Rightarrow> getOrdersRequest \<Rightarrow> detail list \<times> error option" where
  "GetOrderHistory name delimiter getTradeHistory pairString filterOrdersByTickRange
       filterOrdersBySide req =
     (case tradeHistories getTradeHistory pairString (req_Currencies req) [] of
        Inl err \<Rightarrow> ([], Some err)
      | Inr trades \<Rightarrow>
          (filterOrdersBySide
             (filterOrdersByTickRange (tradeOrders name delimiter trades [])
                (req_StartTicks req) (req_EndTicks req))
             (req_OrderSide req), None))"

section \<open>Deposit address and withdrawal\<close>

text \<open>
  \<open>getCryptoDepositAddress\<close> is the REST call, \<open>codeString\<close> is \<^verbatim>\<open>currency.Code.String\<close> and
  \<open>gateioGenerateAddress\<close> is the constant of that name.
\<close>

definition GetDepositAddress ::
  "(string \<Rightarrow> error + string) \<Rightarrow> ('c \<Rightarrow> string) \<Rightarrow> string \<Rightarrow> 'c \<Rightarrow> string \<Rightarrow> string \<times> error option" where
  "GetDepositAddress getCryptoDepositAddress codeString gateioGenerateAddress cryptocurrency
       accountID =
     (case getCryptoDepositAddress (codeString cryptocurrency) of
        Inl err \<Rightarrow> ([], Some err)
      | Inr addr \<Rightarrow>
          if addr = gateioGenerateAddress
          then ([], Some (ErrorsNew
                  ''new deposit address is being generated, please retry again shortly''))
          else (addr, None))"

text \<open>\<^verbatim>\<open>withdraw.CryptoRequest\<close> (\<open>wd_\<close>); \<open>withdrawCrypto\<close> is the REST call.\<close>

record 'c cryptoRequest =
  wd_Currency :: 'c
  wd_Address :: string
  wd_Amount :: float64

definition WithdrawCryptocurrencyFunds ::
  "(string \<Rightarrow> string \<Rightarrow> float64 \<Rightarrow> string \<times> error option) \<Rightarrow> ('c \<Rightarrow> string) \<Rightarrow> 'c cryptoRequest
     \<Rightarrow> string \<times> error option" where
  "WithdrawCryptocurrencyFunds withdrawCrypto codeString withdrawRequest =
     withdrawCrypto (codeString (wd_Currency withdrawRequest)) (wd_Address withdrawRequest)
       (wd_Amount withdrawRequest)"

section \<open>Sample inputs\<close>

text \<open>Concrete payloads and collaborators, for the evaluations below.\<close>

definition wsSample :: "int \<Rightarrow> int \<Rightarrow> wsRecord" where
  "wsSample side typ =
     \<lparr>ws_ID = 7, ws_User = 42, ws_Market = ''btc_usdt'', ws_Type = side, ws_OrderType = typ,
      ws_Ctime = 1574068824, ws_Price = 100, ws_Amount = 10, ws_FilledAmount = 3,
      ws_Left = 5, ws_DealFee = 0\<rparr>"

definition ooSample :: "string \<Rightarrow> string \<Rightarrow> openOrder" where
  "ooSample number status =
     \<lparr>oo_OrderNumber = number, oo_CurrencyPair = ''btc_usdt'', oo_Type = ''sell'',
      oo_Status = status, oo_Rate = 100, oo_Amount = 10, oo_InitialAmount = 10,
      oo_FilledAmount = 3, oo_Timestamp = 1574068824\<rparr>"

definition reqSample :: getOrdersRequest where
  "reqSample =
     \<lparr>req_Currencies = [NewPairFromString ''btc_usdt''], req_OrderType = ''LIMIT'',
      req_OrderSide = [], req_StartTicks = ZeroTime, req_EndTicks = ZeroTime\<rparr>"

definition splitSample :: "float64 \<Rightarrow> error + int \<times> int" where
  "splitSample c = Inr (\<lfloor>c\<rfloor>, 0)"

definition pairStringSample :: "pair \<Rightarrow> string" where
  "pairStringSample p = (case p of NewPairFromString s \<Rightarrow> s | _ \<Rightarrow> [])"

definition pagesSample :: "nat list \<Rightarrow> string \<Rightarrow> int \<Rightarrow> int \<Rightarrow> error + wsRecord list" where
  "pagesSample sizes orderType offset limit =
     (if 0 \<le> offset \<and> offset mod 100 = 0 \<and> nat (offset div 100) < length sizes
      then Inr (replicate (sizes ! nat (offset div 100)) (wsSample 0 1))
      else Inl (External ''timeout''))"

definition errorTextSample :: "error \<Rightarrow> string" where
  "errorTextSample e =
     (case e of
        ErrFunctionNotSupported \<Rightarrow> ''unsupported wrapper function''
      | ErrNotYetImplemented \<Rightarrow> ''not yet implemented''
      | ErrorsNew s \<Rightarrow> s
      | Panic s \<Rightarrow> s
      | External s \<Rightarrow> s)"

definition parseFloatSample :: "string \<Rightarrow> error + float64" where
  "parseFloatSample s =
     (case map_of [(''0.5'', 1 / 2), (''1.0'', 1), (''2.0'', 2)] s of
        Some v \<Rightarrow> Inr v
      | None \<Rightarrow> Inl (External ''strconv.ParseFloat: invalid syntax''))"

definition trSample :: tickerResponse where
  "trSample =
     \<lparr>tr_Last = 5 / 100, tr_High = 6 / 100, tr_Low = 4 / 100, tr_BaseVolume = 100,
      tr_QuoteVolume = 5, tr_Open = 0, tr_Close = 0\<rparr>"

text \<open>A ticker cache that is the list of the tickers published so far, and its lookup.\<close>

definition recordTicker :: "string \<Rightarrow> tickerPrice \<Rightarrow> string \<Rightarrow> tickerPrice list \<Rightarrow> error option \<times> tickerPrice list" where
  "recordTicker name tp assetType published = (None, published @ [tp])"

definition lastTicker :: "string \<Rightarrow> pair \<Rightarrow> string \<Rightarrow> tickerPrice list \<Rightarrow> tickerPrice \<times> error option" where
  "lastTicker name p assetType published =
     (case filter (\<lambda>tp. tp_Pair tp = p) (rev published) of
        [] \<Rightarrow> (zeroPrice, Some (External ''ticker not found''))
      | tp # _ \<Rightarrow> (tp, None))"

definition timeoutSample :: error where
  "timeoutSample = External ''timeout''"

definition submitSample :: submit where
  "submitSample =
     \<lparr>sub_Pair = NewPairFromString ''btc_usdt'', sub_OrderSide = ''BUY'', sub_Price = 100,
      sub_Amount = 1\<rparr>"

definition cancelSample :: cancel where
  "cancelSample =
     \<lparr>cn_OrderID = ''7'', cn_CurrencyPair = NewPairFromString ''btc_usdt'', cn_AssetType = ''spot''\<rparr>"

definition withdrawSample :: "string cryptoRequest" where
  "withdrawSample = \<lparr>wd_Currency = ''BTC'', wd_Address = ''1BoatSLRHtKNngkdXEeobR76b53LETtpyT'', wd_Amount = 1\<rparr>"

section \<open>Properties\<close>

subsection \<open>The loops of the wrapper\<close>

lemma wsRecords_append:
  "wsRecords name split rs (acc @ orders) =
     (acc @ fst (wsRecords name split rs orders), snd (wsRecords name split rs orders))"
proof (induction rs arbitrary: orders)
  case Nil
  show ?case by simp
next
  case (Cons r rs)
  show ?case
  proof (cases "split (ws_Ctime r)")
    case (Inl e)
    then show ?thesis by simp
  next
    case (Inr ab)
    obtain a b where ab: "ab = (a, b)" by (cases ab)
    have "wsRecords name split rs ((acc @ orders) @ [wsDetail name r a b]) =
          wsRecords name split rs (acc @ (orders @ [wsDetail name r a b]))" by simp
    with Inr ab Cons.IH [of "orders @ [wsDetail name r a b]"] show ?thesis by simp
  qed
qed

lemma wsRecords_acc:
  "wsRecords name split rs orders =
     (orders @ fst (wsRecords name split rs []), snd (wsRecords name split rs []))"
  using wsRecords_append [of name split rs orders "[]"] by simp

text \<open>What a run of the record loop without error appends.\<close>

lemma wsRecords_ok:
  assumes "\<forall>r \<in> set rs. \<exists>a b. split (ws_Ctime r) = Inr (a, b)"
  shows "snd (wsRecords name split rs orders) = None \<and>
         length (fst (wsRecords name split rs orders)) = length orders + length rs"
  using assms
proof (induction rs arbitrary: orders)
  case Nil
  show ?case by simp
next
  case (Cons r rs)
  then obtain a b where ab: "split (ws_Ctime r) = Inr (a, b)" by auto
  from Cons have "snd (wsRecords name split rs (orders @ [wsDetail name r a b])) = None \<and>
     length (fst (wsRecords name split rs (orders @ [wsDetail name r a b]))) = length (orders @ [wsDetail name r a b]) + length rs"
    by simp
  with ab show ?case by simp
qed

lemma wsRecords_None:
  assumes "wsRecords name split rs orders = (ds, None)"
  shows "\<exists>ts. length ts = length rs \<and>
           (\<forall>j < length rs. split (ws_Ctime (rs ! j)) = Inr (ts ! j)) \<and>
           ds = orders @ map (\<lambda>(r, t). wsDetail name r (fst t) (snd t)) (zip rs ts)"
  using assms
proof (induction rs arbitrary: orders)
  case Nil
  then show ?case by simp
next
  case (Cons r rs)
  show ?case
  proof (cases "split (ws_Ctime r)")
    case (Inl e)
    with Cons.prems show ?thesis by simp
  next
    case (Inr t)
    obtain a b where t: "t = (a, b)" by (cases t)
    from Cons.prems Inr t
    have "wsRecords name split rs (orders @ [wsDetail name r a b]) = (ds, None)" by simp
    from Cons.IH [OF this] obtain ts where ts: "length ts = length rs"
      "\<forall>j < length rs. split (ws_Ctime (rs ! j)) = Inr (ts ! j)"
      "ds = (orders @ [wsDetail name r a b]) @ map (\<lambda>(r, t). wsDetail name r (fst t) (snd t)) (zip rs ts)"
      by blast
    have "\<forall>j < length (r # rs). split (ws_Ctime ((r # rs) ! j)) = Inr ((t # ts) ! j)"
    proof (intro allI impI)
      fix j assume "j < length (r # rs)"
      then show "split (ws_Ctime ((r # rs) ! j)) = Inr ((t # ts) ! j)"
        using Inr ts(2) by (cases j) auto
    qed
    moreover have "length (t # ts) = length (r # rs)" using ts(1) by simp
    moreover have "ds = orders @ map (\<lambda>(r, t). wsDetail name r (fst t) (snd t)) (zip (r # rs) (t # ts))"
      using ts(3) t by simp
    ultimately show ?thesis by blast
  qed
qed

lemma wsLoop_fetch_error:
  assumes "ws ot i 100 = Inl e"
  shows "wsLoop name ws split ot i acc fs = Some ((acc, Some e), fs @ [(i, 100)])"
  using assms by (subst wsLoop.simps) simp

lemma wsLoop_split_error:
  assumes "ws ot i 100 = Inr rs" and "wsRecords name split rs acc = (acc', Some e)"
  shows "wsLoop name ws split ot i acc fs = Some ((acc', Some e), fs @ [(i, 100)])"
  using assms by (subst wsLoop.simps) simp

lemma wsLoop_short_page:
  assumes "ws ot i 100 = Inr rs" and "wsRecords name split rs acc = (acc', None)"
    and "length rs < 100"
  shows "wsLoop name ws split ot i acc fs = Some ((acc', None), fs @ [(i, 100)])"
  using assms by (subst wsLoop.simps) simp

lemma wsLoop_full_page:
  assumes "ws ot i 100 = Inr rs" and "wsRecords name split rs acc = (acc', None)"
    and "100 \<le> length rs"
  shows "wsLoop name ws split ot i acc fs =
         wsLoop name ws split ot (i + 100) acc' (fs @ [(i, 100)])"
  using assms by (subst wsLoop.simps) simp

lemma wsLoop_pages:
  assumes fetch: "\<And>k. k \<le> n \<Longrightarrow> ws ot (100 * int k) 100 = Inr (pg k)"
    and full: "\<And>k. k < n \<Longrightarrow> 100 \<le> length (pg k)"
    and short: "length (pg n) < 100"
    and splits: "\<And>k r. k \<le> n \<Longrightarrow> r \<in> set (pg k) \<Longrightarrow> \<exists>a b. split (ws_Ctime r) = Inr (a, b)"
    and "m \<le> n"
  shows "wsLoop name ws split ot (100 * int m) acc fs =
         Some ((acc @ concat (map (\<lambda>k. fst (wsRecords name split (pg k) [])) [m..<Suc n]), None),
               fs @ map (\<lambda>k. (100 * int k, 100)) [m..<Suc n])"
  using \<open>m \<le> n\<close>
proof (induction "n - m" arbitrary: m acc fs)
  case 0
  then have mn: "m = n" by simp
  have ok: "\<forall>r \<in> set (pg n). \<exists>a b. split (ws_Ctime r) = Inr (a, b)"
    using splits [of n] by blast
  have rec: "wsRecords name split (pg n) acc = (acc @ fst (wsRecords name split (pg n) []), None)"
    using wsRecords_acc [of name split "pg n" acc] wsRecords_ok [OF ok, of name "[]"] by simp
  have f: "ws ot (100 * int n) 100 = Inr (pg n)" using fetch [of n] by simp
  show ?case
    unfolding mn
    using wsLoop_short_page [where ws = ws and ot = ot, OF f rec short, of fs] by simp
next
  case (Suc d)
  then have lt: "m < n" and d: "d = n - Suc m" and le: "Suc m \<le> n" by simp_all
  have ok: "\<forall>r \<in> set (pg m). \<exists>a b. split (ws_Ctime r) = Inr (a, b)"
    using splits [of m] lt by auto
  have rec: "wsRecords name split (pg m) acc = (acc @ fst (wsRecords name split (pg m) []), None)"
    using wsRecords_acc [of name split "pg m" acc] wsRecords_ok [OF ok, of name "[]"] by simp
  have f: "ws ot (100 * int m) 100 = Inr (pg m)" using fetch [of m] lt by simp
  have step: "wsLoop name ws split ot (100 * int m) acc fs =
        wsLoop name ws split ot (100 * int m + 100) (acc @ fst (wsRecords name split (pg m) []))
          (fs @ [(100 * int m, 100)])"
    using wsLoop_full_page [where ws = ws and ot = ot, OF f rec full [OF lt]] .
  have off: "100 * int m + 100 = 100 * int (Suc m)" by simp
  have upt: "[m..<Suc n] = m # [Suc m..<Suc n]" using lt by (simp add: upt_conv_Cons)
  show ?case
    unfolding step off Suc.hyps(1) [OF d le] upt by simp
qed

text \<open>When every page is full the loop goes on for ever: it returns nothing.\<close>

lemma wsLoop_full_pages_forever:
  assumes full: "\<And>k. \<exists>rs. ws ot (100 * int k) 100 = Inr rs \<and> 100 \<le> length rs \<and>
                    (\<forall>r \<in> set rs. \<exists>a b. split (ws_Ctime r) = Inr (a, b))"
  shows "wsLoop name ws split ot (100 * int m) acc fs = None"
proof (rule ccontr)
  assume "wsLoop name ws split ot (100 * int m) acc fs \<noteq> None"
  then obtain y where y: "wsLoop name ws split ot (100 * int m) acc fs = Some y" by auto
  let ?P = "\<lambda>n w s t i (a :: detail list) (f :: (int \<times> int) list)
              (y :: (detail list \<times> error option) \<times> (int \<times> int) list).
              \<not> (n = name \<and> w = ws \<and> s = split \<and> t = ot \<and> (\<exists>m. i = 100 * int m))"
  have "?P name ws split ot (100 * int m) acc fs y"
  proof (rule wsLoop.raw_induct [where P = ?P, OF _ y])
    fix loop n w s t i a f z
    assume IH: "\<And>w s t i a f b z. loop w s t i a f b = Some z \<Longrightarrow> ?P w s t i a f b z"
      and body: "(case w t i 100 of
          Inl err \<Rightarrow> Some ((a, Some err), f @ [(i, 100)])
        | Inr records \<Rightarrow>
            (case wsRecords n s records a of
               (orders', None) \<Rightarrow>
                 if length records < 100 then Some ((orders', None), f @ [(i, 100)])
                 else loop n w s t (i + 100) orders' (f @ [(i, 100)])
             | (orders', Some err) \<Rightarrow> Some ((orders', Some err), f @ [(i, 100)]))) = Some z"
    show "?P n w s t i a f z"
    proof
      assume eq: "n = name \<and> w = ws \<and> s = split \<and> t = ot \<and> (\<exists>m. i = 100 * int m)"
      then obtain k where k: "i = 100 * int k" by blast
      from full [of k] obtain rs where rs: "ws ot (100 * int k) 100 = Inr rs" "100 \<le> length rs"
        "\<forall>r \<in> set rs. \<exists>a b. split (ws_Ctime r) = Inr (a, b)" by blast
      have rec: "wsRecords name split rs a = (a @ fst (wsRecords name split rs []), None)"
        using wsRecords_acc [of name split rs a] wsRecords_ok [OF rs(3), of name "[]"] by simp
      have w: "w t i 100 = Inr rs" using eq k rs(1) by simp
      have r: "wsRecords n s rs a = (a @ fst (wsRecords name split rs []), None)"
        using eq rec by simp
      have "loop n w s t (i + 100) (a @ fst (wsRecords name split rs [])) (f @ [(i, 100)]) = Some z"
        using body rs(2) by (simp add: w r)
      from IH [OF this] have "\<not> (n = name \<and> w = ws \<and> s = split \<and> t = ot \<and> (\<exists>m. i + 100 = 100 * int m))" .
      moreover have "i + 100 = 100 * int (Suc k)" using k by simp
      ultimately show False using eq by blast
    qed
  qed
  then show False by blast
qed

text \<open>On the real-time path the operation is the loop run from offset 0 with nothing accumulated.\<close>

lemma GetActiveOrders_ws:
  assumes "canUseWs"
  shows "GetActiveOrders name delimiter canUseWs ws split getOpenOrders pairString byTick bySide req =
         (case wsLoop name ws split (req_OrderType req) 0 [] [] of
            None \<Rightarrow> None
          | Some ((orders, Some err), fetches) \<Rightarrow> Some (orders, Some err)
          | Some ((orders, None), fetches) \<Rightarrow>
              Some (bySide (byTick orders (req_StartTicks req) (req_EndTicks req))
                      (req_OrderSide req), None))"
  using assms by (simp add: GetActiveOrders_def Let_def)

lemma orderInfoScan_found:
  assumes "orderInfoScan name delimiter orderID orders = (d, None)"
  shows "\<exists>x \<in> set orders. oo_OrderNumber x = orderID \<and> d = orderInfoDetail name delimiter x"
  using assms by (induction orders) (auto split: if_splits)

lemma restOrders_filter:
  "restOrders name delimiter xs orders =
     orders @ map (restDetail name delimiter) (filter (\<lambda>x. oo_Status x = ''open'') xs)"
  by (induction xs arbitrary: orders) simp_all

lemma restDetail_Status: "Status (restDetail name delimiter x) = oo_Status x"
  by (simp add: restDetail_def zeroDetail_def)

lemma countSymbols_keys:
  "fst ` set (countSymbols xs m) = oo_CurrencyPair ` set xs \<union> fst ` set m"
  by (induction xs arbitrary: m) (auto simp: dom_map_default)

lemma cancelSymbols_lookup:
  "cancelSymbols cancel errorText us status s =
     (if s \<in> fst ` set us
      then (case cancel (- 1) s of Some e \<Rightarrow> Some (errorText e) | None \<Rightarrow> status s)
      else status s)"
proof (induction us arbitrary: status)
  case Nil
  show ?case by simp
next
  case (Cons u us)
  obtain unique n where u: "u = (unique, n)" by (cases u)
  show ?case
  proof (cases "cancel (- 1) unique")
    case None
    then have "cancelSymbols cancel errorText (u # us) status s =
               cancelSymbols cancel errorText us status s"
      by (simp add: u)
    with None show ?thesis by (simp add: Cons.IH u)
  next
    case (Some e)
    then have "cancelSymbols cancel errorText (u # us) status s =
               cancelSymbols cancel errorText us (status(unique \<mapsto> errorText e)) s"
      by (simp add: u)
    with Some show ?thesis by (auto simp: Cons.IH u split: option.splits)
  qed
qed

lemma tickerKeys_foldl:
  "tickerKeys processTicker name assetType pairString p result cache =
     foldl (\<lambda>c tp. snd (processTicker name tp assetType c)) cache
       (map (\<lambda>kv. tickerOf p (snd kv)) (filter (\<lambda>kv. EqualFold (fst kv) (pairString p)) result))"
  by (induction result arbitrary: cache) auto

lemma tickerPairs_foldl:
  "tickerPairs processTicker name assetType pairString pairs result cache =
     foldl (\<lambda>c tp. snd (processTicker name tp assetType c)) cache
       (concat (map (\<lambda>q. map (\<lambda>kv. tickerOf q (snd kv))
                             (filter (\<lambda>kv. EqualFold (fst kv) (pairString q)) result)) pairs))"
  by (induction pairs arbitrary: cache) (simp_all add: tickerKeys_foldl)

lemma at_most_one_match:
  assumes "distinct (map (\<lambda>kv. map toLower (fst kv)) result)"
  shows "length (filter (\<lambda>kv. EqualFold (fst kv) s) result) \<le> 1"
  using assms
proof (induction result)
  case Nil
  show ?case by simp
next
  case (Cons kv result)
  show ?case
  proof (cases "EqualFold (fst kv) s")
    case True
    have "filter (\<lambda>kv. EqualFold (fst kv) s) result = []"
    proof (rule ccontr)
      assume "filter (\<lambda>kv. EqualFold (fst kv) s) result \<noteq> []"
      then obtain kv' where "kv' \<in> set result" "EqualFold (fst kv') s"
        by (metis (mono_tags, lifting) filter_False)
      with True have "map toLower (fst kv) = map toLower (fst kv')"
        by (simp add: EqualFold_def)
      with \<open>kv' \<in> set result\<close>
      have "map toLower (fst kv) \<in> (\<lambda>kv. map toLower (fst kv)) ` set result"
        by (auto simp: image_iff)
      with Cons.prems show False by simp
    qed
    with True show ?thesis by simp
  next
    case False
    with Cons show ?thesis by simp
  qed
qed

lemma wsLoop_full_prefix:
  assumes fetch: "\<And>k. k < n \<Longrightarrow> ws ot (100 * int k) 100 = Inr (pg k)"
    and full: "\<And>k. k < n \<Longrightarrow> 100 \<le> length (pg k)"
    and splits: "\<And>k r. k < n \<Longrightarrow> r \<in> set (pg k) \<Longrightarrow> \<exists>a b. split (ws_Ctime r) = Inr (a, b)"
    and "m \<le> n"
  shows "wsLoop name ws split ot (100 * int m) acc fs =
         wsLoop name ws split ot (100 * int n)
           (acc @ concat (map (\<lambda>k. fst (wsRecords name split (pg k) [])) [m..<n]))
           (fs @ map (\<lambda>k. (100 * int k, 100)) [m..<n])"
  using \<open>m \<le> n\<close>
proof (induction "n - m" arbitrary: m acc fs)
  case 0
  then show ?case by simp
next
  case (Suc d)
  then have lt: "m < n" and d: "d = n - Suc m" and le: "Suc m \<le> n" by simp_all
  have ok: "\<forall>r \<in> set (pg m). \<exists>a b. split (ws_Ctime r) = Inr (a, b)"
    using splits [of m] lt by auto
  have rec: "wsRecords name split (pg m) acc = (acc @ fst (wsRecords name split (pg m) []), None)"
    using wsRecords_acc [of name split "pg m" acc] wsRecords_ok [OF ok, of name "[]"] by simp
  have f: "ws ot (100 * int m) 100 = Inr (pg m)" using fetch [of m] lt by simp
  have step: "wsLoop name ws split ot (100 * int m) acc fs =
        wsLoop name ws split ot (100 * int m + 100) (acc @ fst (wsRecords name split (pg m) []))
          (fs @ [(100 * int m, 100)])"
    using wsLoop_full_page [where ws = ws and ot = ot, OF f rec full [OF lt]] .
  have off: "100 * int m + 100 = 100 * int (Suc m)" by simp
  have upt: "[m..<n] = m # [Suc m..<n]" using lt by (simp add: upt_conv_Cons)
  show ?case
    unfolding step off Suc.hyps(1) [OF d le] upt by simp
qed

lemma tradeHistories_error:
  assumes "\<forall>c' \<in> set cs1. \<exists>r. getTradeHistory (pairString c') = Inr r"
    and "getTradeHistory (pairString c) = Inl e"
  shows "tradeHistories getTradeHistory pairString (cs1 @ c # cs2) trades = Inl e"
  using assms
proof (induction cs1 arbitrary: trades)
  case Nil
  then show ?case by simp
next
  case (Cons c' cs1)
  then obtain r where "getTradeHistory (pairString c') = Inr r" by auto
  with Cons show ?case by simp
qed

subsection \<open>Balance reconciliation\<close>

text \<open>
  Claim C1, at a failing input of the REST path: \<open>locked = {BTC: "0.5"}\<close> and
  \<open>available = {ETH: "2.0"}\<close>. BTC is in \<open>locked\<close> only: its record has hold 0.5 and total
  0, since the record appended for a locked currency sets \<^verbatim>\<open>Hold\<close> and never
  \<^verbatim>\<open>TotalValue\<close>; the claim wants total 0.5 and total \<open>\<ge>\<close> hold.
\<close>

theorem locked_only_currency_has_zero_total:
  "UpdateAccountInfo ''GateIO'' False (\<lambda>c. Inl (External ''websocket not connected''))
     (Inr \<lparr>bal_Locked = JObject [(''BTC'', JString ''0.5'')],
           bal_Available = JObject [(''ETH'', JString ''2.0'')]\<rparr>)
     parseFloatSample (\<lambda>s. s) (\<lambda>h. None) =
   (\<lparr>h_Exchange = ''GateIO'',
     h_Accounts = [\<lparr>sa_ID = [],
        Currencies = [\<lparr>CurrencyName = ''BTC'', TotalValue = 0, Hold = 1 / 2\<rparr>,
                      \<lparr>CurrencyName = ''ETH'', TotalValue = 2, Hold = 0\<rparr>]\<rparr>]\<rparr>, None)"
  by (simp add: UpdateAccountInfo_def restBalances_def parseFloatSample_def)

text \<open>
  In general: whenever the loop over \<open>locked\<close> succeeds, it has appended one record per
  entry, with the parsed amount as hold and total 0.
\<close>

lemma lockedLoop_appends:
  assumes "lockedLoop parseFloat newCode l balances = Inr balances'"
  shows "\<exists>new. balances' = balances @ new \<and> map CurrencyName new = map (\<lambda>kv. newCode (fst kv)) l \<and>
           (\<forall>b \<in> set new. TotalValue b = 0) \<and>
           (\<forall>i < length l. \<exists>s. snd (l ! i) = JString s \<and> parseFloat s = Inr (Hold (new ! i)))"
  using assms
proof (induction l arbitrary: balances)
  case Nil
  then show ?case by simp
next
  case (Cons kv l)
  obtain x v where kv: "kv = (x, v)" by (cases kv)
  from Cons.prems kv obtain s where s: "v = JString s"
    by (cases v) simp_all
  from Cons.prems kv s obtain lockedF where f: "parseFloat s = Inr lockedF"
    by (cases "parseFloat s") simp_all
  let ?b = "\<lparr>CurrencyName = newCode x, TotalValue = 0, Hold = lockedF\<rparr>"
  from Cons.prems kv s f have "lockedLoop parseFloat newCode l (balances @ [?b]) = Inr balances'"
    by simp
  from Cons.IH [OF this] obtain new where new: "balances' = (balances @ [?b]) @ new"
    "map CurrencyName new = map (\<lambda>kv. newCode (fst kv)) l"
    "\<forall>b \<in> set new. TotalValue b = 0"
    "\<forall>i < length l. \<exists>s. snd (l ! i) = JString s \<and> parseFloat s = Inr (Hold (new ! i))"
    by blast
  have "\<forall>i < length (kv # l). \<exists>s. snd ((kv # l) ! i) = JString s \<and>
          parseFloat s = Inr (Hold ((?b # new) ! i))"
  proof (intro allI impI)
    fix i assume "i < length (kv # l)"
    then show "\<exists>s. snd ((kv # l) ! i) = JString s \<and> parseFloat s = Inr (Hold ((?b # new) ! i))"
      using new(4) kv s f by (cases i) auto
  qed
  moreover have "balances' = balances @ (?b # new)" using new(1) by simp
  moreover have "map CurrencyName (?b # new) = map (\<lambda>kv. newCode (fst kv)) (kv # l)"
    using new(2) kv by simp
  moreover have "\<forall>b \<in> set (?b # new). TotalValue b = 0" using new(3) by simp
  ultimately show ?case by blast
qed

text \<open>
  The spec's own example, where every locked currency is available too, comes out as the
  spec says; and the websocket path of the same function gives every currency
  total = available + freeze, so total \<open>\<ge>\<close> hold for non-negative amounts.
\<close>

lemma both_maps_example:
  "UpdateAccountInfo ''GateIO'' False (\<lambda>c. Inl (External ''websocket not connected''))
     (Inr \<lparr>bal_Locked = JObject [(''BTC'', JString ''0.5'')],
           bal_Available = JObject [(''BTC'', JString ''1.0''), (''ETH'', JString ''2.0'')]\<rparr>)
     parseFloatSample (\<lambda>s. s) (\<lambda>h. None) =
   (\<lparr>h_Exchange = ''GateIO'',
     h_Accounts = [\<lparr>sa_ID = [],
        Currencies = [\<lparr>CurrencyName = ''BTC'', TotalValue = 3 / 2, Hold = 1 / 2\<rparr>,
                      \<lparr>CurrencyName = ''ETH'', TotalValue = 2, Hold = 0\<rparr>]\<rparr>]\<rparr>, None)"
  by (simp add: UpdateAccountInfo_def restBalances_def parseFloatSample_def)

lemma wsBalances_total:
  assumes "\<forall>b \<in> set currData. Hold b \<le> TotalValue b"
    and "\<forall>kv \<in> set result. 0 \<le> wb_Available (snd kv)"
  shows "\<forall>b \<in> set (wsBalances newCode result currData). Hold b \<le> TotalValue b"
  using assms
proof (induction result arbitrary: currData)
  case Nil
  then show ?case by simp
next
  case (Cons kv result)
  obtain k v where kv: "kv = (k, v)" by (cases kv)
  let ?b = "\<lparr>CurrencyName = newCode k, TotalValue = wb_Available v + wb_Freeze v, Hold = wb_Freeze v\<rparr>"
  have "\<forall>b \<in> set (currData @ [?b]). Hold b \<le> TotalValue b"
    using Cons.prems by (auto simp: kv)
  moreover have "\<forall>kv \<in> set result. 0 \<le> wb_Available (snd kv)" using Cons.prems(2) by simp
  ultimately have "\<forall>b \<in> set (wsBalances newCode result (currData @ [?b])). Hold b \<le> TotalValue b"
    by (rule Cons.IH)
  then show ?case by (simp add: kv)
qed

subsection \<open>Remaining amounts\<close>

text \<open>
  Claim C2, as amended. \<^verbatim>\<open>GetOrderInfo\<close> computes the remaining amount itself: for the
  open order it matched, remaining = initial - filled, executed = filled and amount =
  initial, so remaining = amount - executed; it is non-negative exactly when filled does
  not exceed initial (nothing clamps it). The real-time path of \<^verbatim>\<open>GetActiveOrders\<close> does
  not compute it: every record's remaining amount is the source's \<^verbatim>\<open>Left\<close> field, next to
  its \<^verbatim>\<open>Amount\<close> and \<^verbatim>\<open>FilledAmount\<close>, copied as they come.
\<close>

theorem remaining_amount_sources:
  "(getOpenOrders [] = Inr orders \<and> GetOrderInfo name delimiter getOpenOrders orderID = (d, None) \<longrightarrow>
      (\<exists>x \<in> set orders. oo_OrderNumber x = orderID \<and>
         RemainingAmount d = oo_InitialAmount x - oo_FilledAmount x \<and>
         ExecutedAmount d = oo_FilledAmount x \<and> Amount d = oo_InitialAmount x \<and>
         RemainingAmount d = Amount d - ExecutedAmount d \<and>
         (0 \<le> RemainingAmount d \<longleftrightarrow> oo_FilledAmount x \<le> oo_InitialAmount x))) \<and>
   (wsRecords name split rs [] = (ds, None) \<longrightarrow>
      length ds = length rs \<and>
      (\<forall>j < length rs. RemainingAmount (ds ! j) = ws_Left (rs ! j) \<and>
         ExecutedAmount (ds ! j) = ws_FilledAmount (rs ! j) \<and> Amount (ds ! j) = ws_Amount (rs ! j)))"
proof (intro conjI impI)
  assume a: "getOpenOrders [] = Inr orders \<and> GetOrderInfo name delimiter getOpenOrders orderID = (d, None)"
  then have "orderInfoScan name delimiter orderID orders = (d, None)"
    by (auto simp: GetOrderInfo_def)
  from orderInfoScan_found [OF this] obtain x where x: "x \<in> set orders"
    "oo_OrderNumber x = orderID" "d = orderInfoDetail name delimiter x" by blast
  have "RemainingAmount d = oo_InitialAmount x - oo_FilledAmount x \<and>
         ExecutedAmount d = oo_FilledAmount x \<and> Amount d = oo_InitialAmount x"
    using x(3) by (simp add: orderInfoDetail_def zeroDetail_def)
  with x(1,2) show "\<exists>x \<in> set orders. oo_OrderNumber x = orderID \<and>
         RemainingAmount d = oo_InitialAmount x - oo_FilledAmount x \<and>
         ExecutedAmount d = oo_FilledAmount x \<and> Amount d = oo_InitialAmount x \<and>
         RemainingAmount d = Amount d - ExecutedAmount d \<and>
         (0 \<le> RemainingAmount d \<longleftrightarrow> oo_FilledAmount x \<le> oo_InitialAmount x)"
    by auto
next
  assume "wsRecords name split rs [] = (ds, None)"
  from wsRecords_None [OF this] obtain ts where ts: "length ts = length rs"
    "ds = map (\<lambda>(r, t). wsDetail name r (fst t) (snd t)) (zip rs ts)" by auto
  show "length ds = length rs" using ts by simp
  show "\<forall>j < length rs. RemainingAmount (ds ! j) = ws_Left (rs ! j) \<and>
         ExecutedAmount (ds ! j) = ws_FilledAmount (rs ! j) \<and> Amount (ds ! j) = ws_Amount (rs ! j)"
    using ts by (simp add: wsDetail_def)
qed

theorem remaining_amount_sources_witness:
  "(\<exists>d. GetOrderInfo ''GateIO'' ''_'' (\<lambda>s. Inr [ooSample ''1'' ''open'', ooSample ''2'' ''open'']) ''2'' = (d, None) \<and>
        RemainingAmount d = 7 \<and> ExecutedAmount d = 3 \<and> Amount d = 10) \<and>
   (\<exists>ds. wsRecords ''GateIO'' splitSample [wsSample 0 1] [] = (ds, None) \<and>
        map RemainingAmount ds = [5] \<and> map ExecutedAmount ds = [3] \<and> map Amount ds = [10])"
proof -
  let ?get = "\<lambda>s::string. (Inr [ooSample ''1'' ''open'', ooSample ''2'' ''open''] :: error + openOrder list)"
  let ?d = "orderInfoDetail ''GateIO'' ''_'' (ooSample ''2'' ''open'')"
  let ?ds = "[wsDetail ''GateIO'' (wsSample 0 1) 1574068824 0]"
  have g: "GetOrderInfo ''GateIO'' ''_'' ?get ''2'' = (?d, None)"
    by (simp add: GetOrderInfo_def ooSample_def)
  have w: "wsRecords ''GateIO'' splitSample [wsSample 0 1] [] = (?ds, None)"
    by (simp add: splitSample_def wsSample_def)
  from remaining_amount_sources [of ?get "[ooSample ''1'' ''open'', ooSample ''2'' ''open'']"
      "''GateIO''" "''_''" "''2''" ?d splitSample "[wsSample 0 1]" ?ds] g w
  show ?thesis by (auto simp: ooSample_def wsSample_def)
qed

text \<open>
  Against the claim as stated: a real-time record with amount 10, filled 3 and a stale
  \<^verbatim>\<open>Left\<close> of 5 is normalised to remaining 5, not 10 - 3.
\<close>

theorem remaining_counterexample:
  "map (\<lambda>d. (RemainingAmount d, Amount d - ExecutedAmount d))
     (fst (wsRecords ''GateIO'' splitSample [wsSample 0 1] [])) = [(5, 7)]"
  by (simp add: splitSample_def wsSample_def wsDetail_def)

subsection \<open>Side and type flags on the real-time path\<close>

text \<open>
  Claim C3, as amended. On the real-time path the side flag 1 gives Sell and every other
  value (0, 2, ...) gives Buy; the type flag 1 gives Limit and every other value gives
  Market. No flag value makes the record loop fail: when every timestamp splits, the loop
  appends one record per raw record and returns no error.
\<close>

theorem ws_flags_never_fail:
  assumes "\<forall>r \<in> set rs. \<exists>a b. split (ws_Ctime r) = Inr (a, b)"
  shows "\<exists>ds. wsRecords name split rs orders = (orders @ ds, None) \<and> length ds = length rs \<and>
           (\<forall>j < length rs.
              OrderSide (ds ! j) = (if ws_Type (rs ! j) = 1 then Sell else Buy) \<and>
              OrderType (ds ! j) = (if ws_OrderType (rs ! j) = 1 then Limit else Market))"
proof -
  have none: "snd (wsRecords name split rs []) = None"
    using wsRecords_ok [OF assms, of name "[]"] by simp
  then have eq: "wsRecords name split rs [] = (fst (wsRecords name split rs []), None)"
    by (metis prod.collapse)
  from wsRecords_None [OF eq] obtain ts where ts: "length ts = length rs"
    "fst (wsRecords name split rs []) = map (\<lambda>(r, t). wsDetail name r (fst t) (snd t)) (zip rs ts)"
    by auto
  let ?ds = "fst (wsRecords name split rs [])"
  have "wsRecords name split rs orders = (orders @ ?ds, None)"
    using wsRecords_acc [of name split rs orders] none by simp
  moreover have "length ?ds = length rs" using ts by simp
  moreover have "\<forall>j < length rs.
      OrderSide (?ds ! j) = (if ws_Type (rs ! j) = 1 then Sell else Buy) \<and>
      OrderType (?ds ! j) = (if ws_OrderType (rs ! j) = 1 then Limit else Market)"
    using ts by (simp add: wsDetail_def)
  ultimately show ?thesis by blast
qed

theorem ws_flags_never_fail_witness:
  "\<exists>ds. wsRecords ''GateIO'' splitSample [wsSample 0 0, wsSample 1 1, wsSample 2 2] [] = (ds, None) \<and>
      map OrderSide ds = [Buy, Sell, Buy] \<and> map OrderType ds = [Market, Limit, Market]"
proof -
  have h: "\<forall>r \<in> set [wsSample 0 0, wsSample 1 1, wsSample 2 2]. \<exists>a b. splitSample (ws_Ctime r) = Inr (a, b)"
    by (simp add: splitSample_def)
  from ws_flags_never_fail [OF h, of "''GateIO''" "[]"]
  obtain ds where ds: "wsRecords ''GateIO'' splitSample [wsSample 0 0, wsSample 1 1, wsSample 2 2] [] = (ds, None)"
    "length ds = 3"
    "\<forall>j < 3. OrderSide (ds ! j) = (if ws_Type ([wsSample 0 0, wsSample 1 1, wsSample 2 2] ! j) = 1 then Sell else Buy) \<and>
              OrderType (ds ! j) = (if ws_OrderType ([wsSample 0 0, wsSample 1 1, wsSample 2 2] ! j) = 1 then Limit else Market)"
    by auto
  from ds(2) obtain d0 d1 d2 where l: "ds = [d0, d1, d2]"
    by (auto simp: length_Suc_conv numeral_3_eq_3)
  from ds(3) [rule_format, of 0] ds(3) [rule_format, of 1] ds(3) [rule_format, of 2]
  have r: "map OrderSide ds = [Buy, Sell, Buy] \<and> map OrderType ds = [Market, Limit, Market]"
    unfolding l by (simp add: wsSample_def)
  show ?thesis
  proof (intro conjI exI)
    show "wsRecords ''GateIO'' splitSample [wsSample 0 0, wsSample 1 1, wsSample 2 2] [] = (ds, None)"
      by (rule ds(1))
    show "map OrderSide ds = [Buy, Sell, Buy]" using r by (rule conjunct1)
    show "map OrderType ds = [Market, Limit, Market]" using r by (rule conjunct2)
  qed
qed

text \<open>
  Against the claim as stated: a page holding one record with side flag 2 and type flag 2
  makes the call succeed, with side Buy and type Market.
\<close>

theorem unknown_flag_counterexample:
  "\<exists>d. GetActiveOrders ''GateIO'' ''_'' True (\<lambda>ot i n. Inr [wsSample 2 2]) splitSample
      (\<lambda>s. Inr []) pairStringSample (\<lambda>xs s e. xs) (\<lambda>xs s. xs) reqSample = Some ([d], None) \<and>
    OrderSide d = Buy \<and> OrderType d = Market"
  by (simp add: GetActiveOrders_def wsLoop.simps splitSample_def wsSample_def wsDetail_def)

subsection \<open>A failing page fetch\<close>

text \<open>
  Claim C4, at a failing input. The first page holds 100 records and the second fetch
  fails: the real-time path returns the error together with the 100 records accumulated
  so far (\<^verbatim>\<open>return orders, err\<close>), where the claim wants none. The REST path of the same
  function returns \<^verbatim>\<open>nil, err\<close>.
\<close>

theorem fetch_error_keeps_accumulated_orders:
  "\<exists>orders. GetActiveOrders ''GateIO'' ''_'' True (pagesSample [100]) splitSample
      (\<lambda>s. Inr []) pairStringSample (\<lambda>xs s e. xs) (\<lambda>xs s. xs) reqSample =
        Some (orders, Some (External ''timeout'')) \<and> length orders = 100"
proof -
  let ?rs = "replicate 100 (wsSample 0 1)"
  have ok: "\<forall>r \<in> set ?rs. \<exists>a b. splitSample (ws_Ctime r) = Inr (a, b)"
    by (simp add: splitSample_def)
  let ?acc = "fst (wsRecords ''GateIO'' splitSample ?rs [])"
  have rec: "wsRecords ''GateIO'' splitSample ?rs [] = (?acc, None)" and len: "length ?acc = 100"
    using wsRecords_ok [OF ok, of "''GateIO''" "[]"] by (simp_all add: prod_eq_iff)
  have p0: "pagesSample [100] ''LIMIT'' 0 100 = Inr ?rs" by (simp add: pagesSample_def)
  have p1: "pagesSample [100] ''LIMIT'' (0 + 100) 100 = Inl (External ''timeout'')"
    by (simp add: pagesSample_def)
  have "wsLoop ''GateIO'' (pagesSample [100]) splitSample ''LIMIT'' 0 [] [] =
        wsLoop ''GateIO'' (pagesSample [100]) splitSample ''LIMIT'' (0 + 100) ?acc ([] @ [(0, 100)])"
    by (rule wsLoop_full_page [where ws = "pagesSample [100]" and ot = "''LIMIT''", OF p0 rec]) simp
  also have "\<dots> = Some ((?acc, Some (External ''timeout'')), ([] @ [(0, 100)]) @ [(0 + 100, 100)])"
    by (rule wsLoop_fetch_error [where ws = "pagesSample [100]" and ot = "''LIMIT''", OF p1])
  finally have "GetActiveOrders ''GateIO'' ''_'' True (pagesSample [100]) splitSample
      (\<lambda>s. Inr []) pairStringSample (\<lambda>xs s e. xs) (\<lambda>xs s. xs) reqSample =
        Some (?acc, Some (External ''timeout''))"
    by (simp add: GetActiveOrders_def reqSample_def)
  with len show ?thesis by blast
qed

subsection \<open>Pagination\<close>

text \<open>
  Claim C5. On the real-time path \<^verbatim>\<open>GetActiveOrders\<close> is the pagination loop run from
  offset 0 with an empty accumulator, followed by the two filters. Let the fetches at
  offsets 0, 100, ..., 100 n succeed with pages \<open>pg 0, ..., pg n\<close>, the first n of them with at
  least 100 records and page n with fewer than 100, and let every timestamp split. Then
  the loop returns without error after exactly n + 1 fetches, at offsets 0, 100, ..., 100 n
  with limit 100 each, the accumulator holds the translation of every page, in order (as
  many records as the pages have together), and \<^verbatim>\<open>GetActiveOrders\<close> returns the filters
  applied to that accumulator, with a nil error. (While pages stay full the loop goes on,
  see \<open>wsLoop_full_pages_forever\<close>.)
\<close>

theorem pagination_stops_at_first_short_page:
  assumes "canUseWs"
    and "\<And>k. k \<le> n \<Longrightarrow> ws (req_OrderType req) (100 * int k) 100 = Inr (pg k)"
    and "\<And>k. k < n \<Longrightarrow> 100 \<le> length (pg k)"
    and "length (pg n) < 100"
    and "\<And>k r. k \<le> n \<Longrightarrow> r \<in> set (pg k) \<Longrightarrow> \<exists>a b. split (ws_Ctime r) = Inr (a, b)"
  shows "GetActiveOrders name delimiter canUseWs ws split getOpenOrders pairString byTick bySide req =
           (case wsLoop name ws split (req_OrderType req) 0 [] [] of
              None \<Rightarrow> None
            | Some ((orders, Some err), fetches) \<Rightarrow> Some (orders, Some err)
            | Some ((orders, None), fetches) \<Rightarrow>
                Some (bySide (byTick orders (req_StartTicks req) (req_EndTicks req))
                        (req_OrderSide req), None)) \<and>
         (\<exists>orders fetches.
           wsLoop name ws split (req_OrderType req) 0 [] [] = Some ((orders, None), fetches) \<and>
           fetches = map (\<lambda>k. (100 * int k, 100)) [0..<Suc n] \<and>
           length fetches = Suc n \<and>
           orders = concat (map (\<lambda>k. fst (wsRecords name split (pg k) [])) [0..<Suc n]) \<and>
           length orders = (\<Sum>k\<le>n. length (pg k)) \<and>
           GetActiveOrders name delimiter canUseWs ws split getOpenOrders pairString byTick bySide req =
             Some (bySide (byTick orders (req_StartTicks req) (req_EndTicks req))
                     (req_OrderSide req), None))"
proof -
  let ?ot = "req_OrderType req"
  let ?orders = "concat (map (\<lambda>k. fst (wsRecords name split (pg k) [])) [0..<Suc n])"
  let ?fetches = "map (\<lambda>k. (100 * int k, 100 :: int)) [0..<Suc n]"
  have link: "GetActiveOrders name delimiter canUseWs ws split getOpenOrders pairString byTick bySide req =
           (case wsLoop name ws split ?ot 0 [] [] of
              None \<Rightarrow> None
            | Some ((orders, Some err), fetches) \<Rightarrow> Some (orders, Some err)
            | Some ((orders, None), fetches) \<Rightarrow>
                Some (bySide (byTick orders (req_StartTicks req) (req_EndTicks req))
                        (req_OrderSide req), None))"
    by (rule GetActiveOrders_ws [OF assms(1)])
  have "wsLoop name ws split ?ot (100 * int 0) [] [] = Some (([] @ ?orders, None), [] @ ?fetches)"
  proof (rule wsLoop_pages)
    show "\<And>k. k \<le> n \<Longrightarrow> ws ?ot (100 * int k) 100 = Inr (pg k)" by (rule assms(2))
    show "\<And>k. k < n \<Longrightarrow> 100 \<le> length (pg k)" by (rule assms(3))
    show "length (pg n) < 100" by (rule assms(4))
    show "\<And>k r. k \<le> n \<Longrightarrow> r \<in> set (pg k) \<Longrightarrow> \<exists>a b. split (ws_Ctime r) = Inr (a, b)"
      by (rule assms(5))
    show "0 \<le> n" by simp
  qed
  then have run: "wsLoop name ws split ?ot 0 [] [] = Some ((?orders, None), ?fetches)" by simp
  have len: "\<And>k. k \<le> n \<Longrightarrow> length (fst (wsRecords name split (pg k) [])) = length (pg k)"
  proof -
    fix k assume "k \<le> n"
    then have "\<forall>r \<in> set (pg k). \<exists>a b. split (ws_Ctime r) = Inr (a, b)" using assms(5) by blast
    from wsRecords_ok [OF this, of name "[]"] show "length (fst (wsRecords name split (pg k) [])) = length (pg k)"
      by simp
  qed
  have "length ?orders = (\<Sum>k\<leftarrow>[0..<Suc n]. length (fst (wsRecords name split (pg k) [])))"
    by (simp add: length_concat comp_def)
  also have "\<dots> = (\<Sum>k\<leftarrow>[0..<Suc n]. length (pg k))"
    by (rule arg_cong [where f = sum_list], rule map_cong) (auto simp: len)
  also have "\<dots> = (\<Sum>k\<le>n. length (pg k))"
    by (simp add: interv_sum_list_conv_sum_set_nat atLeast0AtMost lessThan_Suc_atMost atLeast0LessThan del: upt_Suc)
  finally have total: "length ?orders = (\<Sum>k\<le>n. length (pg k))" .
  have result: "GetActiveOrders name delimiter canUseWs ws split getOpenOrders pairString byTick bySide req =
             Some (bySide (byTick ?orders (req_StartTicks req) (req_EndTicks req))
                     (req_OrderSide req), None)"
    unfolding link run by simp
  have "wsLoop name ws split ?ot 0 [] [] = Some ((?orders, None), ?fetches) \<and>
           ?fetches = map (\<lambda>k. (100 * int k, 100)) [0..<Suc n] \<and>
           length ?fetches = Suc n \<and>
           ?orders = concat (map (\<lambda>k. fst (wsRecords name split (pg k) [])) [0..<Suc n]) \<and>
           length ?orders = (\<Sum>k\<le>n. length (pg k)) \<and>
           GetActiveOrders name delimiter canUseWs ws split getOpenOrders pairString byTick bySide req =
             Some (bySide (byTick ?orders (req_StartTicks req) (req_EndTicks req))
                     (req_OrderSide req), None)"
    using run total result by simp
  then have "\<exists>orders fetches.
           wsLoop name ws split ?ot 0 [] [] = Some ((orders, None), fetches) \<and>
           fetches = map (\<lambda>k. (100 * int k, 100)) [0..<Suc n] \<and>
           length fetches = Suc n \<and>
           orders = concat (map (\<lambda>k. fst (wsRecords name split (pg k) [])) [0..<Suc n]) \<and>
           length orders = (\<Sum>k\<le>n. length (pg k)) \<and>
           GetActiveOrders name delimiter canUseWs ws split getOpenOrders pairString byTick bySide req =
             Some (bySide (byTick orders (req_StartTicks req) (req_EndTicks req))
                     (req_OrderSide req), None)"
    by blast
  with link show ?thesis by blast
qed

text \<open>
  \<^verbatim>\<open>GetActiveOrders\<close> on pages of sizes 100, 100, 37: 3 fetches, 237 records; on pages of
  sizes 100, 100, 100, 0: 4 fetches, 300 records. The filters keep everything here.
\<close>

theorem pagination_stops_at_first_short_page_witness:
  "(\<exists>orders.
      GetActiveOrders ''GateIO'' ''_'' True (pagesSample [100, 100, 37]) splitSample
        (\<lambda>s. Inl timeoutSample) pairStringSample (\<lambda>xs s e. xs) (\<lambda>xs s. xs) reqSample =
        Some (orders, None) \<and>
      wsLoop ''GateIO'' (pagesSample [100, 100, 37]) splitSample ''LIMIT'' 0 [] [] =
        Some ((orders, None), [(0, 100), (100, 100), (200, 100)]) \<and> length orders = 237) \<and>
   (\<exists>orders.
      GetActiveOrders ''GateIO'' ''_'' True (pagesSample [100, 100, 100, 0]) splitSample
        (\<lambda>s. Inl timeoutSample) pairStringSample (\<lambda>xs s e. xs) (\<lambda>xs s. xs) reqSample =
        Some (orders, None) \<and>
      wsLoop ''GateIO'' (pagesSample [100, 100, 100, 0]) splitSample ''LIMIT'' 0 [] [] =
        Some ((orders, None), [(0, 100), (100, 100), (200, 100), (300, 100)]) \<and>
      length orders = 300)"
proof -
  have ot: "req_OrderType reqSample = ''LIMIT''" by (simp add: reqSample_def)
  have sp: "\<And>r. \<exists>a b. splitSample (ws_Ctime r) = Inr (a, b)" by (simp add: splitSample_def)
  let ?pg = "\<lambda>k. replicate ([100, 100, 37] ! k) (wsSample 0 1)"
  have a1: "\<And>k. k \<le> 2 \<Longrightarrow>
      pagesSample [100, 100, 37] (req_OrderType reqSample) (100 * int k) 100 = Inr (?pg k)"
    by (simp add: pagesSample_def)
  have a2: "\<And>k. k < 2 \<Longrightarrow> 100 \<le> length (?pg k)"
  proof -
    fix k :: nat assume "k < 2"
    then have "k = 0 \<or> k = 1" by auto
    then show "100 \<le> length (?pg k)" by auto
  qed
  have a3: "length (?pg 2) < 100" by simp
  have a4: "\<And>k r. k \<le> 2 \<Longrightarrow> r \<in> set (?pg k) \<Longrightarrow> \<exists>a b. splitSample (ws_Ctime r) = Inr (a, b)"
    by (rule sp)
  note a = pagination_stops_at_first_short_page [where canUseWs = True and n = 2
      and ws = "pagesSample [100, 100, 37]" and req = reqSample and pg = ?pg and split = splitSample
      and name = "''GateIO''" and delimiter = "''_''" and getOpenOrders = "\<lambda>s. Inl timeoutSample"
      and pairString = pairStringSample and byTick = "\<lambda>xs s e. xs" and bySide = "\<lambda>xs s. xs",
      OF TrueI a1 a2 a3 a4]
  let ?qg = "\<lambda>k. replicate ([100, 100, 100, 0] ! k) (wsSample 0 1)"
  have b1: "\<And>k. k \<le> 3 \<Longrightarrow>
      pagesSample [100, 100, 100, 0] (req_OrderType reqSample) (100 * int k) 100 = Inr (?qg k)"
    by (simp add: pagesSample_def)
  have b2: "\<And>k. k < 3 \<Longrightarrow> 100 \<le> length (?qg k)"
  proof -
    fix k :: nat assume "k < 3"
    then have "k = 0 \<or> k = 1 \<or> k = 2" by auto
    then show "100 \<le> length (?qg k)" by auto
  qed
  have b3: "length (?qg 3) < 100" by simp
  have b4: "\<And>k r. k \<le> 3 \<Longrightarrow> r \<in> set (?qg k) \<Longrightarrow> \<exists>a b. splitSample (ws_Ctime r) = Inr (a, b)"
    by (rule sp)
  note b = pagination_stops_at_first_short_page [where canUseWs = True and n = 3
      and ws = "pagesSample [100, 100, 100, 0]" and req = reqSample and pg = ?qg
      and split = splitSample
      and name = "''GateIO''" and delimiter = "''_''" and getOpenOrders = "\<lambda>s. Inl timeoutSample"
      and pairString = pairStringSample and byTick = "\<lambda>xs s e. xs" and bySide = "\<lambda>xs s. xs",
      OF TrueI b1 b2 b3 b4]
  have s2: "{..2::nat} = {0, 1, 2}" by auto
  have s3: "{..3::nat} = {0, 1, 2, 3}" by auto
  have u2: "[0..<Suc 2] = [0, 1, 2]" by (simp add: upt_rec)
  have u3: "[0..<Suc 3] = [0, 1, 2, 3]" by (simp add: upt_rec)
  from a [THEN conjunct2] obtain orders where
    "GetActiveOrders ''GateIO'' ''_'' True (pagesSample [100, 100, 37]) splitSample
        (\<lambda>s. Inl timeoutSample) pairStringSample (\<lambda>xs s e. xs) (\<lambda>xs s. xs) reqSample =
        Some (orders, None) \<and>
     wsLoop ''GateIO'' (pagesSample [100, 100, 37]) splitSample ''LIMIT'' 0 [] [] =
        Some ((orders, None), [(0, 100), (100, 100), (200, 100)]) \<and> length orders = 237"
    unfolding s2 u2 ot by auto
  moreover from b [THEN conjunct2] obtain orders' where
    "GetActiveOrders ''GateIO'' ''_'' True (pagesSample [100, 100, 100, 0]) splitSample
        (\<lambda>s. Inl timeoutSample) pairStringSample (\<lambda>xs s e. xs) (\<lambda>xs s. xs) reqSample =
        Some (orders', None) \<and>
     wsLoop ''GateIO'' (pagesSample [100, 100, 100, 0]) splitSample ''LIMIT'' 0 [] [] =
        Some ((orders', None), [(0, 100), (100, 100), (200, 100), (300, 100)]) \<and>
     length orders' = 300"
    unfolding s3 u3 ot by auto
  ultimately show ?thesis by blast
qed

subsection \<open>Transport errors\<close>

text \<open>
  Claim C6, as amended. When the transport call it makes fails with an error \<open>e\<close>, each of
  \<^verbatim>\<open>UpdateTicker\<close>, \<^verbatim>\<open>FetchTicker\<close>, \<^verbatim>\<open>UpdateOrderbook\<close>, \<^verbatim>\<open>FetchOrderbook\<close>,
  \<^verbatim>\<open>UpdateAccountInfo\<close> and \<^verbatim>\<open>FetchAccountInfo\<close> (either path), \<^verbatim>\<open>SubmitOrder\<close>, \<^verbatim>\<open>CancelOrder\<close>,
  \<^verbatim>\<open>CancelAllOrders\<close> (its open-orders fetch), \<^verbatim>\<open>GetActiveOrders\<close> (the REST fetch, and any
  page fetch of the real-time path), \<^verbatim>\<open>GetOrderHistory\<close>, \<^verbatim>\<open>GetDepositAddress\<close> and
  \<^verbatim>\<open>WithdrawCryptocurrencyFunds\<close> returns \<open>e\<close> itself. \<^verbatim>\<open>GetOrderInfo\<close> does not: when its
  open-orders fetch fails it returns the new error \<open>failed to get open orders\<close>, whatever
  the fetch error was.
\<close>

theorem transport_errors_surface_except_order_info:
  "(getTickers = Inl e \<longrightarrow>
      fst (UpdateTicker name getTickers enabledPairs pairString processTicker getTicker p assetType
             tickers) = (zeroPrice, Some e)) \<and>
   (snd (getTicker name p assetType tickers) \<noteq> None \<and> getTickers = Inl e \<longrightarrow>
      fst (FetchTicker name getTickers enabledPairs pairString processTicker getTicker p assetType
             tickers) = (zeroPrice, Some e)) \<and>
   (getOrderbook (pairString (formatExchangeCurrency p assetName)) = Inl e \<longrightarrow>
      fst (UpdateOrderbook name formatExchangeCurrency pairString getOrderbook processOrderbook
             getCached p assetName books) = (zeroBase, Some e)) \<and>
   (snd (getCached name p assetName books) \<noteq> None \<and>
    getOrderbook (pairString (formatExchangeCurrency p assetName)) = Inl e \<longrightarrow>
      fst (FetchOrderbook name formatExchangeCurrency pairString getOrderbook processOrderbook
             getCached p assetName books) = (zeroBase, Some e)) \<and>
   (canUseWs \<and> wsGetBalance [] = Inl e \<longrightarrow>
      UpdateAccountInfo name canUseWs wsGetBalance getBalances parseFloat newCode process =
        (zeroHoldings, Some e)) \<and>
   (\<not> canUseWs \<and> getBalances = Inl e \<longrightarrow>
      UpdateAccountInfo name canUseWs wsGetBalance getBalances parseFloat newCode process =
        (zeroHoldings, Some e)) \<and>
   (snd (getHoldings name) \<noteq> None \<and> \<not> canUseWs \<and> getBalances = Inl e \<longrightarrow>
      FetchAccountInfo name getHoldings canUseWs wsGetBalance getBalances parseFloat newCode process =
        (zeroHoldings, Some e)) \<and>
   (snd (getHoldings name) \<noteq> None \<and> canUseWs \<and> wsGetBalance [] = Inl e \<longrightarrow>
      FetchAccountInfo name getHoldings canUseWs wsGetBalance getBalances parseFloat newCode process =
        (zeroHoldings, Some e)) \<and>
   (validate s = None \<and>
    spotNewOrder \<lparr>snp_Amount = sub_Amount s, snp_Price = sub_Price s,
                   snp_Symbol = pairString (sub_Pair s),
                   snp_Type = (if sub_OrderSide s = Buy then lower Buy else lower Sell)\<rparr> = Inl e \<longrightarrow>
      SubmitOrder validate lower pairString spotNewOrder s = (zeroSubmitResponse, Some e)) \<and>
   (parseInt (cn_OrderID order) = Inr orderIDInt \<and>
    cancelExistingOrder orderIDInt
      (pairString (formatExchangeCurrency (cn_CurrencyPair order) (cn_AssetType order))) = Some e \<longrightarrow>
      CancelOrder parseInt formatExchangeCurrency pairString cancelExistingOrder order = Some e) \<and>
   (getOpenOrders [] = Inl e \<longrightarrow>
      CancelAllOrders getOpenOrders cancelAllExistingOrders errorText order = (Map.empty, Some e)) \<and>
   (getOpenOrders [] = Inl e \<longrightarrow>
      GetOrderInfo name delimiter getOpenOrders orderID =
        (zeroDetail, Some (ErrorsNew ''failed to get open orders''))) \<and>
   (\<not> canUseWs \<and>
    getOpenOrders (if length (req_Currencies req) = 1 then pairString (hd (req_Currencies req)) else [])
      = Inl e \<longrightarrow>
      GetActiveOrders name delimiter canUseWs wsGetOrderInfo splitFloatDecimals getOpenOrders
        pairString byTick bySide req = Some ([], Some e)) \<and>
   (canUseWs \<and>
    (\<forall>k < n. wsGetOrderInfo (req_OrderType req) (100 * int k) 100 = Inr (pg k) \<and>
        100 \<le> length (pg k) \<and>
        (\<forall>r \<in> set (pg k). \<exists>a b. splitFloatDecimals (ws_Ctime r) = Inr (a, b))) \<and>
    wsGetOrderInfo (req_OrderType req) (100 * int n) 100 = Inl e \<longrightarrow>
      (\<exists>orders. GetActiveOrders name delimiter canUseWs wsGetOrderInfo splitFloatDecimals
          getOpenOrders pairString byTick bySide req = Some (orders, Some e))) \<and>
   (req_Currencies req = earlier @ c # later \<and>
    (\<forall>c' \<in> set earlier. \<exists>r. getTradeHistory (pairString c') = Inr r) \<and>
    getTradeHistory (pairString c) = Inl e \<longrightarrow>
      GetOrderHistory name delimiter getTradeHistory pairString byTick bySide req = ([], Some e)) \<and>
   (getCryptoDepositAddress (codeString cryptocurrency) = Inl e \<longrightarrow>
      GetDepositAddress getCryptoDepositAddress codeString gateioGenerateAddress cryptocurrency
        accountID = ([], Some e)) \<and>
   (snd (withdrawCrypto (codeString (wd_Currency withdrawRequest)) (wd_Address withdrawRequest)
           (wd_Amount withdrawRequest)) = Some e \<longrightarrow>
      snd (WithdrawCryptocurrencyFunds withdrawCrypto codeString withdrawRequest) = Some e)"
proof (intro conjI impI)
  assume "getTickers = Inl e"
  then show "fst (UpdateTicker name getTickers enabledPairs pairString processTicker getTicker p assetType
             tickers) = (zeroPrice, Some e)"
    by (simp add: UpdateTicker_def)
next
  assume "snd (getTicker name p assetType tickers) \<noteq> None \<and> getTickers = Inl e"
  then show "fst (FetchTicker name getTickers enabledPairs pairString processTicker getTicker p assetType
             tickers) = (zeroPrice, Some e)"
    by (cases "getTicker name p assetType tickers") (auto simp: FetchTicker_def UpdateTicker_def)
next
  assume "getOrderbook (pairString (formatExchangeCurrency p assetName)) = Inl e"
  then show "fst (UpdateOrderbook name formatExchangeCurrency pairString getOrderbook processOrderbook
             getCached p assetName books) = (zeroBase, Some e)"
    by (simp add: UpdateOrderbook_def)
next
  assume "snd (getCached name p assetName books) \<noteq> None \<and>
    getOrderbook (pairString (formatExchangeCurrency p assetName)) = Inl e"
  then show "fst (FetchOrderbook name formatExchangeCurrency pairString getOrderbook processOrderbook
             getCached p assetName books) = (zeroBase, Some e)"
    by (cases "getCached name p assetName books") (auto simp: FetchOrderbook_def UpdateOrderbook_def)
next
  assume "canUseWs \<and> wsGetBalance [] = Inl e"
  then show "UpdateAccountInfo name canUseWs wsGetBalance getBalances parseFloat newCode process =
        (zeroHoldings, Some e)"
    by (simp add: UpdateAccountInfo_def)
next
  assume "\<not> canUseWs \<and> getBalances = Inl e"
  then show "UpdateAccountInfo name canUseWs wsGetBalance getBalances parseFloat newCode process =
        (zeroHoldings, Some e)"
    by (simp add: UpdateAccountInfo_def)
next
  assume "snd (getHoldings name) \<noteq> None \<and> \<not> canUseWs \<and> getBalances = Inl e"
  then show "FetchAccountInfo name getHoldings canUseWs wsGetBalance getBalances parseFloat newCode process =
        (zeroHoldings, Some e)"
    by (cases "getHoldings name") (auto simp: FetchAccountInfo_def UpdateAccountInfo_def)
next
  assume "snd (getHoldings name) \<noteq> None \<and> canUseWs \<and> wsGetBalance [] = Inl e"
  then show "FetchAccountInfo name getHoldings canUseWs wsGetBalance getBalances parseFloat newCode process =
        (zeroHoldings, Some e)"
    by (cases "getHoldings name") (auto simp: FetchAccountInfo_def UpdateAccountInfo_def)
next
  assume "validate s = None \<and>
    spotNewOrder \<lparr>snp_Amount = sub_Amount s, snp_Price = sub_Price s,
                   snp_Symbol = pairString (sub_Pair s),
                   snp_Type = (if sub_OrderSide s = Buy then lower Buy else lower Sell)\<rparr> = Inl e"
  then show "SubmitOrder validate lower pairString spotNewOrder s = (zeroSubmitResponse, Some e)"
    by (simp add: SubmitOrder_def Let_def)
next
  assume "parseInt (cn_OrderID order) = Inr orderIDInt \<and>
    cancelExistingOrder orderIDInt
      (pairString (formatExchangeCurrency (cn_CurrencyPair order) (cn_AssetType order))) = Some e"
  then show "CancelOrder parseInt formatExchangeCurrency pairString cancelExistingOrder order = Some e"
    by (simp add: CancelOrder_def)
next
  assume "getOpenOrders [] = Inl e"
  then show "CancelAllOrders getOpenOrders cancelAllExistingOrders errorText order = (Map.empty, Some e)"
    by (simp add: CancelAllOrders_def)
next
  assume "getOpenOrders [] = Inl e"
  then show "GetOrderInfo name delimiter getOpenOrders orderID =
        (zeroDetail, Some (ErrorsNew ''failed to get open orders''))"
    by (simp add: GetOrderInfo_def)
next
  assume "\<not> canUseWs \<and>
    getOpenOrders (if length (req_Currencies req) = 1 then pairString (hd (req_Currencies req)) else [])
      = Inl e"
  then show "GetActiveOrders name delimiter canUseWs wsGetOrderInfo splitFloatDecimals getOpenOrders
        pairString byTick bySide req = Some ([], Some e)"
    by (simp add: GetActiveOrders_def Let_def)
next
  assume a: "canUseWs \<and>
    (\<forall>k < n. wsGetOrderInfo (req_OrderType req) (100 * int k) 100 = Inr (pg k) \<and>
        100 \<le> length (pg k) \<and>
        (\<forall>r \<in> set (pg k). \<exists>a b. splitFloatDecimals (ws_Ctime r) = Inr (a, b))) \<and>
    wsGetOrderInfo (req_OrderType req) (100 * int n) 100 = Inl e"
  let ?acc = "concat (map (\<lambda>k. fst (wsRecords name splitFloatDecimals (pg k) [])) [0..<n])"
  let ?fs = "map (\<lambda>k. (100 * int k, 100 :: int)) [0..<n]"
  have "wsLoop name wsGetOrderInfo splitFloatDecimals (req_OrderType req) (100 * int 0) [] [] =
        wsLoop name wsGetOrderInfo splitFloatDecimals (req_OrderType req) (100 * int n) ([] @ ?acc) ([] @ ?fs)"
  proof (rule wsLoop_full_prefix)
    show "\<And>k. k < n \<Longrightarrow> wsGetOrderInfo (req_OrderType req) (100 * int k) 100 = Inr (pg k)"
      using a by blast
    show "\<And>k. k < n \<Longrightarrow> 100 \<le> length (pg k)" using a by blast
    show "\<And>k r. k < n \<Longrightarrow> r \<in> set (pg k) \<Longrightarrow> \<exists>a b. splitFloatDecimals (ws_Ctime r) = Inr (a, b)"
      using a by blast
    show "0 \<le> n" by simp
  qed
  also have "\<dots> = Some ((([] @ ?acc), Some e), ([] @ ?fs) @ [(100 * int n, 100)])"
    using a wsLoop_fetch_error [where ws = wsGetOrderInfo and ot = "req_OrderType req" and i = "100 * int n" and e = e]
    by blast
  finally have "GetActiveOrders name delimiter canUseWs wsGetOrderInfo splitFloatDecimals
          getOpenOrders pairString byTick bySide req = Some (?acc, Some e)"
    using a by (simp add: GetActiveOrders_def Let_def)
  then show "\<exists>orders. GetActiveOrders name delimiter canUseWs wsGetOrderInfo splitFloatDecimals
          getOpenOrders pairString byTick bySide req = Some (orders, Some e)"
    by blast
next
  assume "req_Currencies req = earlier @ c # later \<and>
    (\<forall>c' \<in> set earlier. \<exists>r. getTradeHistory (pairString c') = Inr r) \<and>
    getTradeHistory (pairString c) = Inl e"
  then show "GetOrderHistory name delimiter getTradeHistory pairString byTick bySide req = ([], Some e)"
    using tradeHistories_error [of earlier getTradeHistory pairString c e later "[]"]
    by (simp add: GetOrderHistory_def)
next
  assume "getCryptoDepositAddress (codeString cryptocurrency) = Inl e"
  then show "GetDepositAddress getCryptoDepositAddress codeString gateioGenerateAddress cryptocurrency
        accountID = ([], Some e)"
    by (simp add: GetDepositAddress_def)
next
  assume "snd (withdrawCrypto (codeString (wd_Currency withdrawRequest)) (wd_Address withdrawRequest)
           (wd_Amount withdrawRequest)) = Some e"
  then show "snd (WithdrawCryptocurrencyFunds withdrawCrypto codeString withdrawRequest) = Some e"
    by (simp add: WithdrawCryptocurrencyFunds_def)
qed

text \<open>Every transport failing with a timeout; the real-time path fails on its second page.\<close>

theorem transport_errors_surface_except_order_info_witness:
  "fst (UpdateTicker ''GateIO'' (Inl timeoutSample) [NewPairFromString ''btc_usdt''] pairStringSample
          recordTicker lastTicker (NewPairFromString ''btc_usdt'') ''spot'' []) =
     (zeroPrice, Some timeoutSample) \<and>
   fst (FetchTicker ''GateIO'' (Inl timeoutSample) [NewPairFromString ''btc_usdt''] pairStringSample
          recordTicker lastTicker (NewPairFromString ''btc_usdt'') ''spot'' []) =
     (zeroPrice, Some timeoutSample) \<and>
   fst (UpdateOrderbook ''GateIO'' (\<lambda>p a. p) pairStringSample (\<lambda>s. Inl timeoutSample)
          (\<lambda>b books. (None, b # books)) (\<lambda>n p a books. (zeroBase, Some (External ''no orderbook'')))
          (NewPairFromString ''btc_usdt'') ''spot'' []) = (zeroBase, Some timeoutSample) \<and>
   fst (FetchOrderbook ''GateIO'' (\<lambda>p a. p) pairStringSample (\<lambda>s. Inl timeoutSample)
          (\<lambda>b books. (None, b # books)) (\<lambda>n p a books. (zeroBase, Some (External ''no orderbook'')))
          (NewPairFromString ''btc_usdt'') ''spot'' []) = (zeroBase, Some timeoutSample) \<and>
   UpdateAccountInfo ''GateIO'' True (\<lambda>c. Inl timeoutSample) (Inl timeoutSample) parseFloatSample
     (\<lambda>s. s) (\<lambda>h. None) = (zeroHoldings, Some timeoutSample) \<and>
   UpdateAccountInfo ''GateIO'' False (\<lambda>c. Inl timeoutSample) (Inl timeoutSample) parseFloatSample
     (\<lambda>s. s) (\<lambda>h. None) = (zeroHoldings, Some timeoutSample) \<and>
   FetchAccountInfo ''GateIO'' (\<lambda>n. (zeroHoldings, Some (External ''no holdings''))) False
     (\<lambda>c. Inl timeoutSample) (Inl timeoutSample) parseFloatSample (\<lambda>s. s) (\<lambda>h. None) =
     (zeroHoldings, Some timeoutSample) \<and>
   FetchAccountInfo ''GateIO'' (\<lambda>n. (zeroHoldings, Some (External ''no holdings''))) True
     (\<lambda>c. Inl timeoutSample) (Inl timeoutSample) parseFloatSample (\<lambda>s. s) (\<lambda>h. None) =
     (zeroHoldings, Some timeoutSample) \<and>
   SubmitOrder (\<lambda>s. None) (map toLower) pairStringSample (\<lambda>params. Inl timeoutSample) submitSample =
     (zeroSubmitResponse, Some timeoutSample) \<and>
   CancelOrder (\<lambda>s. Inr 7) (\<lambda>p a. p) pairStringSample (\<lambda>i s. Some timeoutSample) cancelSample =
     Some timeoutSample \<and>
   CancelAllOrders (\<lambda>s. Inl timeoutSample) (\<lambda>t s. None) errorTextSample cancelSample =
     (Map.empty, Some timeoutSample) \<and>
   GetOrderInfo ''GateIO'' ''_'' (\<lambda>s. Inl timeoutSample) ''1'' =
     (zeroDetail, Some (ErrorsNew ''failed to get open orders'')) \<and>
   GetActiveOrders ''GateIO'' ''_'' False (pagesSample [100]) splitSample (\<lambda>s. Inl timeoutSample)
     pairStringSample (\<lambda>xs s e. xs) (\<lambda>xs s. xs) reqSample = Some ([], Some timeoutSample) \<and>
   (\<exists>orders. GetActiveOrders ''GateIO'' ''_'' True (pagesSample [100]) splitSample
      (\<lambda>s. Inl timeoutSample) pairStringSample (\<lambda>xs s e. xs) (\<lambda>xs s. xs) reqSample =
        Some (orders, Some timeoutSample)) \<and>
   GetOrderHistory ''GateIO'' ''_'' (\<lambda>s. Inl timeoutSample) pairStringSample (\<lambda>xs s e. xs)
     (\<lambda>xs s. xs) reqSample = ([], Some timeoutSample) \<and>
   GetDepositAddress (\<lambda>s. Inl timeoutSample) (\<lambda>s. s) ''address is being generated'' ''BTC'' [] =
     ([], Some timeoutSample) \<and>
   snd (WithdrawCryptocurrencyFunds (\<lambda>c a n. ([], Some timeoutSample)) (\<lambda>s. s) withdrawSample) =
     Some timeoutSample"
proof -
  note inst = transport_errors_surface_except_order_info
    [where e = timeoutSample and name = "''GateIO''" and getTickers = "Inl timeoutSample"
      and enabledPairs = "[NewPairFromString ''btc_usdt'']" and pairString = pairStringSample
      and processTicker = recordTicker and getTicker = lastTicker
      and p = "NewPairFromString ''btc_usdt''" and assetType = "''spot''"
      and tickers = "[]" and formatExchangeCurrency = "\<lambda>p a. p" and assetName = "''spot''"
      and getOrderbook = "\<lambda>s. Inl timeoutSample" and processOrderbook = "\<lambda>b books. (None, b # books)"
      and getCached = "\<lambda>n p a books. (zeroBase, Some (External ''no orderbook''))"
      and books = "[]" and wsGetBalance = "\<lambda>c. Inl timeoutSample" and getBalances = "Inl timeoutSample"
      and parseFloat = parseFloatSample and newCode = "\<lambda>s. s" and process = "\<lambda>h. None"
      and getHoldings = "\<lambda>n. (zeroHoldings, Some (External ''no holdings''))"
      and validate = "\<lambda>s. None" and lower = "map toLower" and spotNewOrder = "\<lambda>params. Inl timeoutSample" and s = submitSample
      and parseInt = "\<lambda>s. Inr 7" and orderIDInt = 7 and cancelExistingOrder = "\<lambda>i s. Some timeoutSample"
      and order = cancelSample and getOpenOrders = "\<lambda>s. Inl timeoutSample"
      and cancelAllExistingOrders = "\<lambda>t s. None" and errorText = errorTextSample
      and delimiter = "''_''" and orderID = "''1''" and req = reqSample
      and wsGetOrderInfo = "pagesSample [100]" and splitFloatDecimals = splitSample
      and byTick = "\<lambda>xs s e. xs" and bySide = "\<lambda>xs s. xs" and n = 1
      and pg = "\<lambda>k. replicate 100 (wsSample 0 1)" and earlier = "[]"
      and c = "NewPairFromString ''btc_usdt''" and later = "[]"
      and getTradeHistory = "\<lambda>s. Inl timeoutSample"
      and getCryptoDepositAddress = "\<lambda>s. Inl timeoutSample" and codeString = "\<lambda>s. s"
      and cryptocurrency = "''BTC''" and accountID = "[]"
      and gateioGenerateAddress = "''address is being generated''"
      and withdrawCrypto = "\<lambda>c a n. ([], Some timeoutSample)" and withdrawRequest = withdrawSample]
  have pages: "\<forall>k < 1. pagesSample [100] (req_OrderType reqSample) (100 * int k) 100 =
        Inr (replicate 100 (wsSample 0 1)) \<and>
        100 \<le> length (replicate 100 (wsSample 0 1)) \<and>
        (\<forall>r \<in> set (replicate 100 (wsSample 0 1)). \<exists>a b. splitSample (ws_Ctime r) = Inr (a, b))"
    by (simp add: pagesSample_def splitSample_def)
  have err: "pagesSample [100] (req_OrderType reqSample) (100 * int 1) 100 = Inl timeoutSample"
    by (simp add: pagesSample_def timeoutSample_def)
  have cached: "snd (lastTicker ''GateIO'' (NewPairFromString ''btc_usdt'') ''spot'' []) \<noteq> None"
    by (simp add: lastTicker_def)
  have cur: "req_Currencies reqSample = [] @ NewPairFromString ''btc_usdt'' # []"
    by (simp add: reqSample_def)
  from inst [where canUseWs = False] inst [where canUseWs = True] pages err cached cur
  show ?thesis by simp
qed

text \<open>
  Against the claim as stated: with the open-orders fetch failing with a timeout,
  \<^verbatim>\<open>GetOrderInfo\<close> returns another error value.
\<close>

theorem order_info_replaces_error_counterexample:
  "snd (GetOrderInfo ''GateIO'' ''_'' (\<lambda>s. Inl (External ''timeout'')) ''1'') =
     Some (ErrorsNew ''failed to get open orders'') \<and>
   snd (GetOrderInfo ''GateIO'' ''_'' (\<lambda>s. Inl (External ''timeout'')) ''1'') \<noteq>
     Some (External ''timeout'')"
  by (simp add: GetOrderInfo_def)

subsection \<open>Unsupported operations\<close>

text \<open>
  Claim C7, as amended. \<^verbatim>\<open>GetFundingHistory\<close>, \<^verbatim>\<open>WithdrawFiatFunds\<close> and
  \<^verbatim>\<open>WithdrawFiatFundsToInternationalBank\<close> fail with \<^verbatim>\<open>common.ErrFunctionNotSupported\<close> on
  every input; \<^verbatim>\<open>GetExchangeHistory\<close> fails on every input too, with
  \<^verbatim>\<open>common.ErrNotYetImplemented\<close>. None of them returns a success.
\<close>

theorem unsupported_operations_fail:
  "GetFundingHistory = ([], Some ErrFunctionNotSupported) \<and>
   WithdrawFiatFunds withdrawRequest = ([], Some ErrFunctionNotSupported) \<and>
   WithdrawFiatFundsToInternationalBank withdrawRequest = ([], Some ErrFunctionNotSupported) \<and>
   GetExchangeHistory p assetType = ([], Some ErrNotYetImplemented)"
  by (simp add: GetFundingHistory_def WithdrawFiatFunds_def
      WithdrawFiatFundsToInternationalBank_def GetExchangeHistory_def)

text \<open>Against the claim as stated: the error of \<^verbatim>\<open>GetExchangeHistory\<close> is not the not-supported one.\<close>

theorem exchange_history_counterexample:
  "snd (GetExchangeHistory (NewPairFromString ''btc_usdt'') ''spot'' :: unit list \<times> error option)
     \<noteq> Some ErrFunctionNotSupported"
  by (simp add: GetExchangeHistory_def)

subsection \<open>UpdateTicker\<close>

text \<open>
  Claim C8, as amended. Raw keys are matched to enabled pairs up to case (\<open>BTC_USDT\<close>
  matches \<open>btc_usdt\<close>). When the ticker fetch succeeds, \<^verbatim>\<open>UpdateTicker\<close> publishes, for each
  enabled pair in order, one Ticker per raw key that matches the pair: none for a pair
  without a matching key, and exactly one per matching pair when no two raw keys are equal
  up to case. The loop raises no error (a \<^verbatim>\<open>ProcessTicker\<close> error is dropped); what the call
  returns is the cache lookup of the requested pair after the loop.
\<close>

theorem ticker_per_matching_key:
  assumes "getTickers = Inr result"
  shows "EqualFold ''BTC_USDT'' ''btc_usdt'' \<and>
         (let published =
                concat (map (\<lambda>q. map (\<lambda>kv. tickerOf q (snd kv))
                                     (filter (\<lambda>kv. EqualFold (fst kv) (pairString q)) result))
                          enabledPairs);
              cache' = foldl (\<lambda>c tp. snd (processTicker name tp assetType c)) cache published
          in UpdateTicker name getTickers enabledPairs pairString processTicker getTicker p
               assetType cache = (getTicker name p assetType cache', cache')) \<and>
         (distinct (map (\<lambda>kv. map toLower (fst kv)) result) \<longrightarrow>
            (\<forall>q. length (filter (\<lambda>kv. EqualFold (fst kv) (pairString q)) result) \<le> 1))"
proof (intro conjI impI allI)
  show "EqualFold ''BTC_USDT'' ''btc_usdt''" by (simp add: EqualFold_def toLower_def)
next
  show "let published =
                concat (map (\<lambda>q. map (\<lambda>kv. tickerOf q (snd kv))
                                     (filter (\<lambda>kv. EqualFold (fst kv) (pairString q)) result))
                          enabledPairs);
              cache' = foldl (\<lambda>c tp. snd (processTicker name tp assetType c)) cache published
          in UpdateTicker name getTickers enabledPairs pairString processTicker getTicker p
               assetType cache = (getTicker name p assetType cache', cache')"
    using assms by (simp add: UpdateTicker_def tickerPairs_foldl Let_def)
next
  fix q assume "distinct (map (\<lambda>kv. map toLower (fst kv)) result)"
  then show "length (filter (\<lambda>kv. EqualFold (fst kv) (pairString q)) result) \<le> 1"
    by (rule at_most_one_match)
qed

text \<open>
  The spec's scenario: raw key \<open>ETH_BTC\<close>, enabled pairs \<open>ltc_btc\<close> (no raw key) and
  \<open>eth_btc\<close>; one Ticker is published, with last price 0.05 and volume 100.
\<close>

theorem ticker_per_matching_key_witness:
  "UpdateTicker ''GateIO'' (Inr [(''ETH_BTC'', trSample)])
     [NewPairFromString ''ltc_btc'', NewPairFromString ''eth_btc''] pairStringSample
     recordTicker lastTicker (NewPairFromString ''eth_btc'') ''spot'' [] =
   ((tickerOf (NewPairFromString ''eth_btc'') trSample, None),
    [tickerOf (NewPairFromString ''eth_btc'') trSample]) \<and>
   tp_Last (tickerOf (NewPairFromString ''eth_btc'') trSample) = 5 / 100 \<and>
   tp_Volume (tickerOf (NewPairFromString ''eth_btc'') trSample) = 100"
proof -
  have h: "(Inr [(''ETH_BTC'', trSample)] :: error + (string \<times> tickerResponse) list) = Inr [(''ETH_BTC'', trSample)]"
    by simp
  have d: "distinct (map (\<lambda>kv. map toLower (fst kv)) [(''ETH_BTC'', trSample)])" by simp
  from ticker_per_matching_key [where getTickers = "Inr [(''ETH_BTC'', trSample)]"
      and result = "[(''ETH_BTC'', trSample)]"
      and enabledPairs = "[NewPairFromString ''ltc_btc'', NewPairFromString ''eth_btc'']"
      and pairString = pairStringSample and processTicker = recordTicker and getTicker = lastTicker
      and name = "''GateIO''" and p = "NewPairFromString ''eth_btc''" and assetType = "''spot''"
      and cache = "[]", OF h]
  show ?thesis
    by (simp add: Let_def pairStringSample_def EqualFold_def toLower_def recordTicker_def
        lastTicker_def tickerOf_def trSample_def)
qed

text \<open>
  Against the claim as stated: a raw map with the keys \<open>BTC_USDT\<close> and \<open>btc_usdt\<close> and the
  one enabled pair \<open>btc_usdt\<close> publishes two Tickers for that pair. And with a cache that
  holds what was published and no more, asking for the enabled pair \<open>ltc_btc\<close>, which has no
  raw key, ends in the error of the cache lookup.
\<close>

theorem two_keys_one_pair_counterexample:
  "snd (UpdateTicker ''GateIO'' (Inr [(''BTC_USDT'', trSample), (''btc_usdt'', trSample\<lparr>tr_Last := 1\<rparr>)])
     [NewPairFromString ''btc_usdt''] pairStringSample
     recordTicker lastTicker (NewPairFromString ''btc_usdt'') ''spot'' []) =
   [tickerOf (NewPairFromString ''btc_usdt'') trSample,
    tickerOf (NewPairFromString ''btc_usdt'') (trSample\<lparr>tr_Last := 1\<rparr>)] \<and>
   fst (UpdateTicker ''GateIO'' (Inr [(''ETH_BTC'', trSample)])
     [NewPairFromString ''ltc_btc'', NewPairFromString ''eth_btc''] pairStringSample
     recordTicker lastTicker (NewPairFromString ''ltc_btc'') ''spot'' []) =
   (zeroPrice, Some (External ''ticker not found''))"
  by (simp add: UpdateTicker_def pairStringSample_def EqualFold_def toLower_def recordTicker_def
      lastTicker_def tickerOf_def Let_def)

subsection \<open>CancelAllOrders\<close>

text \<open>
  Claim C9. When the open-orders fetch succeeds, \<^verbatim>\<open>CancelAllOrders\<close> returns a nil error
  whatever the per-symbol cancellations do, also when every one of them fails. The
  returned \<^verbatim>\<open>Status\<close> map has an entry exactly for the symbols of the open orders whose
  cancellation failed, and the entry is the text of that error.
\<close>

theorem cancel_all_reports_failures_in_status_only:
  assumes "getOpenOrders [] = Inr orders"
  shows "snd (CancelAllOrders getOpenOrders cancel errorText c) = None \<and>
         (\<forall>s. fst (CancelAllOrders getOpenOrders cancel errorText c) s =
            (if s \<in> oo_CurrencyPair ` set orders then map_option errorText (cancel (- 1) s)
             else None))"
proof -
  have keys: "fst ` set (countSymbols orders []) = oo_CurrencyPair ` set orders"
    using countSymbols_keys [of orders "[]"] by simp
  have "fst (CancelAllOrders getOpenOrders cancel errorText c) s =
            (if s \<in> oo_CurrencyPair ` set orders then map_option errorText (cancel (- 1) s)
             else None)" for s
    using assms
    by (simp add: CancelAllOrders_def cancelSymbols_lookup keys split: option.splits)
  moreover have "snd (CancelAllOrders getOpenOrders cancel errorText c) = None"
    using assms by (simp add: CancelAllOrders_def)
  ultimately show ?thesis by blast
qed

text \<open>Two symbols, both cancellations fail: nil error, two entries in \<^verbatim>\<open>Status\<close>.\<close>

theorem cancel_all_reports_failures_in_status_only_witness:
  "snd (CancelAllOrders
          (\<lambda>s. Inr [ooSample ''1'' ''open'', (ooSample ''2'' ''open'')\<lparr>oo_CurrencyPair := ''eth_usdt''\<rparr>])
          (\<lambda>t s. Some (External ''timeout'')) errorTextSample ()) = None \<and>
   fst (CancelAllOrders
          (\<lambda>s. Inr [ooSample ''1'' ''open'', (ooSample ''2'' ''open'')\<lparr>oo_CurrencyPair := ''eth_usdt''\<rparr>])
          (\<lambda>t s. Some (External ''timeout'')) errorTextSample ()) ''btc_usdt'' = Some ''timeout'' \<and>
   fst (CancelAllOrders
          (\<lambda>s. Inr [ooSample ''1'' ''open'', (ooSample ''2'' ''open'')\<lparr>oo_CurrencyPair := ''eth_usdt''\<rparr>])
          (\<lambda>t s. Some (External ''timeout'')) errorTextSample ()) ''eth_usdt'' = Some ''timeout''"
proof -
  let ?orders = "[ooSample ''1'' ''open'', (ooSample ''2'' ''open'')\<lparr>oo_CurrencyPair := ''eth_usdt''\<rparr>]"
  let ?get = "\<lambda>s::string. (Inr ?orders :: error + openOrder list)"
  have h: "?get [] = Inr ?orders" by simp
  from cancel_all_reports_failures_in_status_only [where getOpenOrders = ?get and orders = ?orders
      and cancel = "\<lambda>t s. Some (External ''timeout'')" and errorText = errorTextSample and c = "()", OF h]
  show ?thesis by (simp add: ooSample_def errorTextSample_def)
qed

subsection \<open>The REST path keeps open orders only\<close>

text \<open>
  Claim C10. On the REST path, when the fetch succeeds, \<^verbatim>\<open>GetActiveOrders\<close> returns no
  error, and its result is what the two filters of package \<^verbatim>\<open>order\<close> leave of the
  translations of the fetched orders whose status is exactly \<open>''open''\<close>. With filters that
  only remove records, every returned record has status \<open>''open''\<close> and is the translation
  of such a fetched order; an order with any other status is left out without an error.
\<close>

theorem rest_path_keeps_only_open_orders:
  assumes "\<not> canUseWs"
    and "getOpenOrders (if length (req_Currencies req) = 1 then pairString (hd (req_Currencies req)) else []) = Inr resp"
    and "\<And>xs s e. set (byTick xs s e) \<subseteq> set xs"
    and "\<And>xs s. set (bySide xs s) \<subseteq> set xs"
  shows "\<exists>res. GetActiveOrders name delimiter canUseWs ws split getOpenOrders pairString byTick bySide req =
            Some (res, None) \<and>
          res = bySide (byTick (map (restDetail name delimiter) (filter (\<lambda>x. oo_Status x = ''open'') resp))
                   (req_StartTicks req) (req_EndTicks req)) (req_OrderSide req) \<and>
          (\<forall>d \<in> set res. Status d = ''open'' \<and>
             (\<exists>x \<in> set resp. oo_Status x = ''open'' \<and> d = restDetail name delimiter x))"
proof -
  let ?open = "map (restDetail name delimiter) (filter (\<lambda>x. oo_Status x = ''open'') resp)"
  let ?res = "bySide (byTick ?open (req_StartTicks req) (req_EndTicks req)) (req_OrderSide req)"
  have run: "GetActiveOrders name delimiter canUseWs ws split getOpenOrders pairString byTick bySide req =
      Some (?res, None)"
    using assms(1,2) by (simp add: GetActiveOrders_def restOrders_filter Let_def)
  have sub: "set ?res \<subseteq> set ?open"
    using assms(3) [of ?open "req_StartTicks req" "req_EndTicks req"]
      assms(4) [of "byTick ?open (req_StartTicks req) (req_EndTicks req)" "req_OrderSide req"]
    by blast
  have "\<forall>d \<in> set ?res. Status d = ''open'' \<and>
             (\<exists>x \<in> set resp. oo_Status x = ''open'' \<and> d = restDetail name delimiter x)"
  proof
    fix d assume "d \<in> set ?res"
    with sub have "d \<in> set ?open" by blast
    then obtain x where x: "x \<in> set resp" "oo_Status x = ''open''" "d = restDetail name delimiter x"
      by auto
    then show "Status d = ''open'' \<and>
             (\<exists>x \<in> set resp. oo_Status x = ''open'' \<and> d = restDetail name delimiter x)"
      by (auto simp: restDetail_Status)
  qed
  with run show ?thesis by blast
qed

text \<open>Statuses \<open>''closed''\<close> and \<open>''OPEN''\<close> are dropped, the two \<open>''open''\<close> orders are kept.\<close>

theorem rest_path_keeps_only_open_orders_witness:
  "GetActiveOrders ''GateIO'' ''_'' False (pagesSample []) splitSample
      (\<lambda>s. if s = ''btc_usdt'' then Inr [ooSample ''1'' ''open'', ooSample ''2'' ''closed'', ooSample ''3'' ''OPEN'', ooSample ''4'' ''open'']
            else Inl (External ''timeout''))
      pairStringSample (\<lambda>xs s e. xs) (\<lambda>xs s. xs) reqSample =
     Some ([restDetail ''GateIO'' ''_'' (ooSample ''1'' ''open''), restDetail ''GateIO'' ''_'' (ooSample ''4'' ''open'')], None)"
proof -
  let ?get = "\<lambda>s. if s = ''btc_usdt'' then Inr [ooSample ''1'' ''open'', ooSample ''2'' ''closed'', ooSample ''3'' ''OPEN'', ooSample ''4'' ''open'']
            else Inl (External ''timeout'')"
  have h1: "\<not> False" by simp
  have h2: "?get (if length (req_Currencies reqSample) = 1 then pairStringSample (hd (req_Currencies reqSample)) else []) =
      Inr [ooSample ''1'' ''open'', ooSample ''2'' ''closed'', ooSample ''3'' ''OPEN'', ooSample ''4'' ''open'']"
    by (simp add: reqSample_def pairStringSample_def)
  have h3: "\<And>(xs :: detail list) (s :: time) (e :: time). set ((\<lambda>xs s e. xs) xs s e) \<subseteq> set xs" by simp
  have h4: "\<And>(xs :: detail list) (s :: string). set ((\<lambda>xs s. xs) xs s) \<subseteq> set xs" by simp
  from rest_path_keeps_only_open_orders [where canUseWs = False and getOpenOrders = ?get
      and req = reqSample and pairString = pairStringSample
      and resp = "[ooSample ''1'' ''open'', ooSample ''2'' ''closed'', ooSample ''3'' ''OPEN'', ooSample ''4'' ''open'']"
      and byTick = "\<lambda>xs s e. xs" and bySide = "\<lambda>xs s. xs" and name = "''GateIO''"
      and delimiter = "''_''" and ws = "pagesSample []" and split = splitSample] h2
  show ?thesis by (simp add: ooSample_def)
qed

end
